theory Spec2Isabelle
  imports Main
begin

section \<open>JavaScript values and the platform's records\<close>

text \<open>
  The update-set builder \<^verbatim>\<open>xSNUpdateSetBuilder\<close> is a ServiceNow script include written in
  JavaScript (Rhino).  This theory embeds the class function by function, under the
  names of the source (an internal function \<^verbatim>\<open>_f\<close> is \<open>f\<close> here), and settles the
  claims C1 to C10 of its specification against the embedding.

  Arguments of the public functions are script values: \<open>undefined\<close>, \<open>null\<close> or a
  string.
\<close>

datatype jsval = JSUndefined | JSNull | JSString string

text \<open>The coercion \<^verbatim>\<open>"" + v\<close> the source uses to "ensure string".\<close>

fun js_str :: "jsval \<Rightarrow> string" where
  "js_str JSUndefined = ''undefined''"
| "js_str JSNull = ''null''"
| "js_str (JSString s) = s"

text \<open>
  \<^verbatim>\<open>JSUtil.nil(v)\<close> and \<^verbatim>\<open>gs.nil(v)\<close> of the platform: true for \<open>null\<close>, \<open>undefined\<close> and
  the empty string.
\<close>

fun JSUtil_nil :: "jsval \<Rightarrow> bool" where
  "JSUtil_nil JSUndefined = True"
| "JSUtil_nil JSNull = True"
| "JSUtil_nil (JSString s) = (s = [])"

text \<open>
  A row of the record store maps field names to values.  A field of a GlideRecord is a
  GlideElement: string concatenation yields its value, the empty string when the field
  has none, and \<^verbatim>\<open>nil()\<close> holds exactly for the empty value.
\<close>

type_synonym row = "(string \<times> string) list"

definition row_field :: "row \<Rightarrow> string \<Rightarrow> string" where
  "row_field r f = (case map_of r f of None \<Rightarrow> [] | Some v \<Rightarrow> v)"

text \<open>
  A GlideRecord positioned on a row: the table it was created for (\<^verbatim>\<open>getTableName()\<close>)
  and the current row.  The table name of a GlideRecord that is bound to no table is
  empty.
\<close>

record glide_record =
  gr_table :: string
  gr_row :: row

definition GR :: "string \<Rightarrow> row \<Rightarrow> glide_record" where
  "GR t r = \<lparr>gr_table = t, gr_row = r\<rparr>"

definition getTableName :: "glide_record \<Rightarrow> string" where
  "getTableName g = gr_table g"

definition gr_field :: "glide_record \<Rightarrow> string \<Rightarrow> string" where
  "gr_field g f = row_field (gr_row g) f"

definition sys_id :: "glide_record \<Rightarrow> string" where
  "sys_id g = gr_field g ''sys_id''"

section \<open>Errors, log lines and the state\<close>

text \<open>
  The conditions a script loads into a GlideRecord before it queries:
  \<^verbatim>\<open>addQuery(field, value)\<close>, \<^verbatim>\<open>addNullQuery(field)\<close>, \<^verbatim>\<open>addNotNullQuery(field)\<close> and
  \<^verbatim>\<open>addEncodedQuery(query)\<close>.
\<close>

datatype cond =
    AddQuery string string
  | AddNullQuery string
  | AddNotNullQuery string
  | AddEncodedQuery string

text \<open>
  The source throws strings.  Each kind of message is a constructor that keeps the parts
  the message is built from: the function named in the message and the offending values.
  \<open>BadArgument\<close> and \<open>Failure\<close> carry the function and the text of a message
  without spliced values, about an argument and about the environment.
  \<open>PlatformError\<close> stands for an exception raised by a call into the platform.
\<close>

datatype error =
    NilParameter string string
  | NoSuchRecord string string string
  | UniqueNoneFound string string "cond list"
  | UniqueMultipleFound string nat string
  | BadArgument string string
  | UnsupportedSubclass string string string
  | Failure string string
  | PlatformError string

text \<open>
  \<^verbatim>\<open>gs.log\<close> lines: the fixed text of the message and the values spliced into it; the line
  of the catch block of \<open>writeUpdateSet\<close> carries the exception it caught.
\<close>

datatype logmsg =
    Log string "string list"
  | LogCount string nat
  | LogCaught string error

text \<open>Every access to the record store is written to a trace.\<close>

datatype lookup =
    Query string "cond list"
  | Get string string string
  | GetRefRecord string string string

text \<open>
  The state: the builder's two fields, and what the builder does to the platform (its
  lookups, its log lines, the session's current update set, the calls of
  \<^verbatim>\<open>GlideUpdateSet.set\<close>, the records handed to \<^verbatim>\<open>GlideUpdateManager2.saveRecord\<close>
  and the rows inserted).  The captured-object map is a JavaScript object used as a
  dictionary; it is kept as an association list in insertion order, which is the order
  \<^verbatim>\<open>for (var sys_id in map)\<close> enumerates it (inherited properties are not enumerable).
  The counter is a JavaScript number that is only reset and incremented, a natural number
  here.
\<close>

record world =
  capturedObjectMap :: "(string \<times> string) list"
  capturedObjectCount :: nat
  lookups :: "lookup list"
  gsLog :: "logmsg list"
  currentUpdateSet :: string
  gusSetCalls :: "string list"
  savedRecords :: "glide_record list"
  insertedRecords :: "glide_record list"

datatype 'a outcome = Return 'a | Throw error

type_synonym 'a prog = "world \<Rightarrow> 'a outcome \<times> world"

definition ret :: "'a \<Rightarrow> 'a prog" where
  "ret x w = (Return x, w)"

definition throw :: "error \<Rightarrow> 'a prog" where
  "throw e w = (Throw e, w)"

text \<open>Sequencing: a throw ends the computation and keeps the state reached so far.\<close>

definition bind :: "'a prog \<Rightarrow> ('a \<Rightarrow> 'b prog) \<Rightarrow> 'b prog" where
  "bind m f w = (case m w of (Throw e, w') \<Rightarrow> (Throw e, w') | (Return a, w') \<Rightarrow> f a w')"

definition gs_log :: "logmsg \<Rightarrow> unit prog" where
  "gs_log l w = (Return (), w\<lparr>gsLog := gsLog w @ [l]\<rparr>)"

text \<open>A \<^verbatim>\<open>while (gr.next())\<close> loop over the rows of a query.\<close>

fun for_each :: "'a list \<Rightarrow> ('a \<Rightarrow> unit prog) \<Rightarrow> unit prog" where
  "for_each [] body = ret ()"
| "for_each (x # xs) body = bind (body x) (\<lambda>_. for_each xs body)"

section \<open>The platform\<close>

text \<open>
  The record store, the update-set manager, the scope resolver and the script engine are
  the platform's.  They are parameters of every function: the rows a query returns
  (\<open>db\<close>, by table and conditions, in the order \<^verbatim>\<open>next()\<close> yields them), the table a
  reference field points to, the scope name \<^verbatim>\<open>gs.getCurrentScopeName()\<close> returns, the
  exception \<^verbatim>\<open>saveRecord\<close> raises for a record (if any), whether
  \<^verbatim>\<open>GlideUpdateSet.set\<close> takes effect for an update set, the identifier \<^verbatim>\<open>insert()\<close>
  gives a new row, and the property names every script object inherits from
  \<^verbatim>\<open>Object.prototype\<close> (\<open>constructor\<close>, \<open>toString\<close> and so on; their values are
  functions and objects).
\<close>

record host =
  db :: "string \<Rightarrow> cond list \<Rightarrow> row list"
  refTable :: "string \<Rightarrow> string \<Rightarrow> string"
  gsCurrentScopeName :: jsval
  saveRecordError :: "glide_record \<Rightarrow> error option"
  setEffective :: "string \<Rightarrow> bool"
  insertSysId :: string
  inherited :: "string \<Rightarrow> bool"

section \<open>The identity deduplication core\<close>

text \<open>
  The map is created as \<^verbatim>\<open>{}\<close>, a plain object.  Reading \<^verbatim>\<open>map[key]\<close> gives the
  table name stored under the key if there is one, else the value the object inherits
  under that name from \<^verbatim>\<open>Object.prototype\<close> if it is such a name, else \<open>undefined\<close>.
  The test \<^verbatim>\<open>!capturedObject\<close> holds for \<open>undefined\<close> and for the empty string; a
  non-empty string and an inherited function or object are truthy.
\<close>

datatype jsprop = PropUndefined | PropString string | PropInherited

definition obj_get :: "host \<Rightarrow> (string \<times> string) list \<Rightarrow> string \<Rightarrow> jsprop" where
  "obj_get h m k =
     (case map_of m k of
        Some v \<Rightarrow> PropString v
      | None \<Rightarrow> if inherited h k then PropInherited else PropUndefined)"

fun truthy :: "jsprop \<Rightarrow> bool" where
  "truthy PropUndefined = False"
| "truthy (PropString s) = (s \<noteq> [])"
| "truthy PropInherited = True"

text \<open>\<^verbatim>\<open>map[key] = v\<close>: an existing key keeps its place, a new key is added last.\<close>

fun obj_set :: "(string \<times> string) list \<Rightarrow> string \<Rightarrow> string \<Rightarrow> (string \<times> string) list" where
  "obj_set [] k v = [(k, v)]"
| "obj_set ((k', v') # m) k v = (if k' = k then (k, v) # m else (k', v') # obj_set m k v)"

text \<open>\<open>initialize\<close>: the constructor (lines 72-76).\<close>

definition initialize :: "world \<Rightarrow> world" where
  "initialize w = w\<lparr>capturedObjectMap := [], capturedObjectCount := 0\<rparr>"

text \<open>\<open>getObjectCount\<close> (lines 1072-1074).\<close>

definition getObjectCount :: "world \<Rightarrow> nat" where
  "getObjectCount w = capturedObjectCount w"

text \<open>
  \<open>_recordObject\<close> (lines 1164-1178).  The argument is \<open>None\<close> for a falsy \<open>gr\<close>
  (\<open>null\<close> or \<open>undefined\<close>).
\<close>

definition recordObject :: "host \<Rightarrow> glide_record option \<Rightarrow> unit prog" where
  "recordObject h gr w =
     (case gr of
        None \<Rightarrow> (Return (), w)
      | Some g \<Rightarrow>
          let key = sys_id g;
              capturedObject = obj_get h (capturedObjectMap w) key
          in if \<not> truthy capturedObject
             then (Return (),
                   w\<lparr>capturedObjectMap := obj_set (capturedObjectMap w) key (getTableName g),
                     capturedObjectCount := capturedObjectCount w + 1,
                     gsLog := gsLog w @ [Log ''Captured object with sys_id'' [getTableName g, key]]\<rparr>)
             else (Return (), w))"

text \<open>\<open>_flushObjectCache\<close> (lines 1211-1214).\<close>

definition flushObjectCache :: "unit prog" where
  "flushObjectCache w = (Return (), w\<lparr>capturedObjectMap := [], capturedObjectCount := 0\<rparr>)"

section \<open>Calls into the platform\<close>

text \<open>A GlideRecord with its query conditions loaded, before \<^verbatim>\<open>query()\<close>.\<close>

type_synonym gr_conds = "string \<times> cond list"

text \<open>\<^verbatim>\<open>gr.query()\<close>: the rows the loop over \<^verbatim>\<open>gr.next()\<close> visits.\<close>

definition gr_query :: "host \<Rightarrow> string \<Rightarrow> cond list \<Rightarrow> row list prog" where
  "gr_query h t cs w = (Return (db h t cs), w\<lparr>lookups := lookups w @ [Query t cs]\<rparr>)"

text \<open>
  \<^verbatim>\<open>gr.get(field, value)\<close>, and \<^verbatim>\<open>gr.get(id)\<close> with the field \<open>sys_id\<close>: the first row
  with that value, or \<open>None\<close> where the source's \<open>get\<close> returns false.
\<close>

definition gr_get :: "host \<Rightarrow> string \<Rightarrow> string \<Rightarrow> string \<Rightarrow> glide_record option prog" where
  "gr_get h t f v w =
     (Return (case db h t [AddQuery f v] of [] \<Rightarrow> None | r # _ \<Rightarrow> Some (GR t r)),
      w\<lparr>lookups := lookups w @ [Get t f v]\<rparr>)"

text \<open>
  \<^verbatim>\<open>gr.field.getRefRecord()\<close>: the referenced record, or an empty GlideRecord of the
  referenced table when the field is empty or the record is gone.
\<close>

definition refRecordValue :: "host \<Rightarrow> glide_record \<Rightarrow> string \<Rightarrow> glide_record" where
  "refRecordValue h g f =
     (let t = refTable h (gr_table g) f; v = gr_field g f
      in if v = [] then GR t []
         else (case db h t [AddQuery ''sys_id'' v] of [] \<Rightarrow> GR t [] | r # _ \<Rightarrow> GR t r))"

definition getRefRecord :: "host \<Rightarrow> glide_record \<Rightarrow> string \<Rightarrow> glide_record prog" where
  "getRefRecord h g f w =
     (Return (refRecordValue h g f),
      w\<lparr>lookups := lookups w @ [GetRefRecord (refTable h (gr_table g) f) f (gr_field g f)]\<rparr>)"

definition isValidRecord :: "glide_record \<Rightarrow> bool" where
  "isValidRecord g = (sys_id g \<noteq> [])"

text \<open>\<^verbatim>\<open>gr.initialize(); gr.f = v; ...; gr.insert()\<close> on a new GlideRecord.\<close>

definition gr_insert :: "host \<Rightarrow> string \<Rightarrow> row \<Rightarrow> glide_record prog" where
  "gr_insert h t vals w =
     (let g = GR t ((''sys_id'', insertSysId h) # vals)
      in (Return g, w\<lparr>insertedRecords := insertedRecords w @ [g]\<rparr>))"

text \<open>\<^verbatim>\<open>GlideUpdateSet.get()\<close> and \<^verbatim>\<open>GlideUpdateSet.set(id)\<close>.\<close>

definition gus_get :: "string prog" where
  "gus_get w = (Return (currentUpdateSet w), w)"

definition gus_set :: "host \<Rightarrow> string \<Rightarrow> unit prog" where
  "gus_set h u w =
     (Return (), w\<lparr>gusSetCalls := gusSetCalls w @ [u],
                   currentUpdateSet := (if setEffective h u then u else currentUpdateSet w)\<rparr>)"

text \<open>\<^verbatim>\<open>this._um.saveRecord(gr)\<close>.\<close>

definition saveRecord :: "host \<Rightarrow> glide_record \<Rightarrow> unit prog" where
  "saveRecord h g w =
     (case saveRecordError h g of
        Some e \<Rightarrow> (Throw e, w)
      | None \<Rightarrow> (Return (), w\<lparr>savedRecords := savedRecords w @ [g]\<rparr>))"

text \<open>Statements in sequence, \<^verbatim>\<open>try/catch\<close> and \<^verbatim>\<open>try/finally\<close>.\<close>

fun seq :: "unit prog list \<Rightarrow> unit prog" where
  "seq [] = ret ()"
| "seq (p # ps) = bind p (\<lambda>_. seq ps)"

definition try_catch :: "unit prog \<Rightarrow> (error \<Rightarrow> unit prog) \<Rightarrow> unit prog" where
  "try_catch body handler w =
     (case body w of (Throw e, w') \<Rightarrow> handler e w' | (Return a, w') \<Rightarrow> (Return a, w'))"

definition try_finally :: "unit prog \<Rightarrow> unit prog \<Rightarrow> unit prog" where
  "try_finally body fin w =
     (case body w of
        (r, w') \<Rightarrow> (case fin w' of (Throw e, w'') \<Rightarrow> (Throw e, w'') | (Return _, w'') \<Rightarrow> (r, w'')))"

text \<open>\<^verbatim>\<open>s.toUpperCase()\<close> on ASCII letters and \<^verbatim>\<open>s.startsWith(p)\<close>.\<close>

definition upper_char :: "char \<Rightarrow> char" where
  "upper_char c = (let n = (of_char c :: nat) in if 97 \<le> n \<and> n \<le> 122 then char_of (n - 32) else c)"

definition toUpperCase :: "string \<Rightarrow> string" where
  "toUpperCase s = map upper_char s"

definition startsWith :: "string \<Rightarrow> string \<Rightarrow> bool" where
  "startsWith s p = (take (length p) s = p)"

text \<open>The table names of \<^verbatim>\<open>xSNUpdateSetBuilder._TABLES\<close> (lines 1221-1268).\<close>

abbreviation "SYS_SCOPE \<equiv> ''sys_scope''"
abbreviation "UPDATE_SET \<equiv> ''sys_update_set''"
abbreviation "CATALOG_ITEM \<equiv> ''sc_cat_item''"
abbreviation "CATALOG_ITEM_VARIABLE \<equiv> ''item_option_new''"
abbreviation "CATALOG_ITEM_VARIABLE_SET_M2M \<equiv> ''io_set_item''"
abbreviation "CATALOG_ITEM_VARIABLE_QUESTION_CHOICE \<equiv> ''question_choice''"
abbreviation "CATALOG_ITEM_UI_POLICY \<equiv> ''catalog_ui_policy''"
abbreviation "CATALOG_ITEM_UI_POLICY_ACTION \<equiv> ''catalog_ui_policy_action''"
abbreviation "CATALOG_ITEM_CLIENT_SCRIPT \<equiv> ''catalog_script_client''"
abbreviation "SYS_APPLICATION \<equiv> ''sys_app''"
abbreviation "SYS_PROPERTIES \<equiv> ''sys_properties''"
abbreviation "SYS_PROPERTIES_CATEGORY \<equiv> ''sys_properties_category''"
abbreviation "SYS_PROPERTIES_CATEGORY_ASSOC \<equiv> ''sys_properties_category_m2m''"
abbreviation "SYS_DB_OBJECT \<equiv> ''sys_db_object''"
abbreviation "SYS_DICTIONARY \<equiv> ''sys_dictionary''"
abbreviation "UI_VIEW \<equiv> ''sys_ui_view''"
abbreviation "SYS_EVENT \<equiv> ''sysevent_register''"
abbreviation "LIST_LAYOUT \<equiv> ''sys_ui_list''"
abbreviation "LIST_CONTROL \<equiv> ''sys_ui_list_control''"
abbreviation "FORM \<equiv> ''sys_ui_form''"
abbreviation "FORM_SECTION \<equiv> ''sys_ui_form_section''"
abbreviation "FORM_LAYOUT \<equiv> ''sys_ui_section''"
abbreviation "FORM_RELATED_LIST \<equiv> ''sys_ui_related_list''"
abbreviation "SYS_DOCUMENTATION \<equiv> ''sys_documentation''"
abbreviation "SYS_CHOICE \<equiv> ''sys_choice''"
abbreviation "SYS_SECURITY_ACL \<equiv> ''sys_security_acl''"
abbreviation "SYS_SECURITY_ACL_ROLE \<equiv> ''sys_security_acl_role''"
abbreviation "SYS_DICTIONARY_OVERRIDE \<equiv> ''sys_dictionary_override''"
abbreviation "SYS_SCRIPT \<equiv> ''sys_script''"
abbreviation "SYS_SCRIPT_CLIENT \<equiv> ''sys_script_client''"
abbreviation "SCRIPT_INCLUDE \<equiv> ''sys_script_include''"
abbreviation "UI_ACTION \<equiv> ''sys_ui_action''"
abbreviation "UI_POLICY \<equiv> ''sys_ui_policy''"
abbreviation "UI_POLICY_ACTION \<equiv> ''sys_ui_policy_action''"
abbreviation "DATA_POLICY \<equiv> ''sys_data_policy2''"
abbreviation "DATA_POLICY_RULE \<equiv> ''sys_data_policy_rule''"
abbreviation "UI_STYLE \<equiv> ''sys_ui_style''"
abbreviation "TABLE_VIEW_RULE \<equiv> ''sysrule_view''"
abbreviation "APPLICATION_MENU \<equiv> ''sys_app_application''"
abbreviation "APPLICATION_MENU_MODULE \<equiv> ''sys_app_module''"
abbreviation "DATABASE_VIEW \<equiv> ''sys_db_view''"
abbreviation "DATABASE_VIEW_TABLE \<equiv> ''sys_db_view_table''"
abbreviation "DATABASE_VIEW_TABLE_FIELD \<equiv> ''sys_db_view_table_field''"
abbreviation "ROLE \<equiv> ''sys_user_role''"
abbreviation "TABLE_NUMBER \<equiv> ''sys_number''"
abbreviation "ARCHIVE_RULE \<equiv> ''sys_archive''"
abbreviation "ARCHIVE_RULE_RELATED \<equiv> ''sys_archive_related''"

section \<open>Internal helper functions\<close>

text \<open>\<open>_getCurrentScopeName\<close> (lines 1188-1191).\<close>

definition getCurrentScopeName :: "host \<Rightarrow> jsval" where
  "getCurrentScopeName h =
     (let scp = gsCurrentScopeName h
      in if scp = JSString ''rhino.global'' then JSString ''global'' else scp)"

text \<open>\<open>_getCurrentScopeGR\<close> (lines 1196-1206).\<close>

definition getCurrentScopeGR :: "host \<Rightarrow> glide_record prog" where
  "getCurrentScopeGR h =
     (let sn = getCurrentScopeName h
      in if JSUtil_nil sn
         then throw (Failure ''xSNUpdateSetBuilder._getCurrentScopeGR'' ''No scope name found!'')
         else bind (gr_get h SYS_SCOPE ''name'' (js_str sn)) (\<lambda>scp.
                case scp of
                  None \<Rightarrow> throw (NoSuchRecord ''xSNUpdateSetBuilder._getCurrentScopeGR'' SYS_SCOPE (js_str sn))
                | Some g \<Rightarrow> ret g))"

text \<open>
  \<open>_captureObjectsFromGRQuery\<close> (lines 1146-1155).  The argument is \<open>None\<close> for a
  falsy \<open>gr\<close>.
\<close>

definition captureObjectsFromGRQuery :: "host \<Rightarrow> gr_conds option \<Rightarrow> unit prog" where
  "captureObjectsFromGRQuery h gr =
     (case gr of
        None \<Rightarrow> throw (NilParameter ''xSNUpdateSetBuilder._captureObjectsFromGRQuery'' ''gr'')
      | Some (t, cs) \<Rightarrow>
          bind (gr_query h t cs) (\<lambda>rows.
          for_each rows (\<lambda>r. recordObject h (Some (GR t r)))))"

text \<open>
  \<open>_captureUniqueGRObject\<close> (lines 1120-1135).  \<^verbatim>\<open>getRowCount()\<close> is the number of
  rows of the query and the first \<^verbatim>\<open>next()\<close> succeeds when there is a row.  The function
  leaves \<open>gr\<close> on the row it recorded; the model returns that record, which
  \<open>captureSystemPropertyCategoryWithAssociations\<close> reads afterwards.
\<close>

definition captureUniqueGRObject :: "host \<Rightarrow> gr_conds option \<Rightarrow> string \<Rightarrow> glide_record prog" where
  "captureUniqueGRObject h gr callingMethod =
     (case gr of
        None \<Rightarrow> throw (NilParameter ''xSNUpdateSetBuilder._captureUniqueGRObject'' ''gr'')
      | Some (t, cs) \<Rightarrow>
          bind (gr_query h t cs) (\<lambda>rows.
          if length rows = 1 \<and> rows \<noteq> []
          then bind (recordObject h (Some (GR t (hd rows)))) (\<lambda>_. ret (GR t (hd rows)))
          else if length rows < 1
          then throw (UniqueNoneFound callingMethod t cs)
          else throw (UniqueMultipleFound callingMethod (length rows) t)))"

text \<open>\<open>_captureUIView\<close> (lines 1092-1108).\<close>

definition captureUIView :: "host \<Rightarrow> jsval \<Rightarrow> unit prog" where
  "captureUIView h view_id =
     (if JSUtil_nil view_id
      then throw (NilParameter ''xSNUpdateSetBuilder.captureUIViewsForTable'' ''sys_id'')
      else let view_id = js_str view_id in
        (\<lambda>w. if \<not> truthy (obj_get h (capturedObjectMap w) view_id)
              then bind (gr_get h UI_VIEW ''sys_id'' view_id) (\<lambda>uiv.
                     case uiv of
                       None \<Rightarrow> throw (NoSuchRecord ''xSNUpdateSetBuilder.captureUIViewsForTable'' UI_VIEW view_id)
                     | Some g \<Rightarrow>
                         seq [gs_log (Log ''Capturing UI View'' [gr_field g ''title'']),
                              recordObject h (Some g)]) w
              else ret () w))"

section \<open>Public API\<close>

text \<open>
  The loop of \<open>writeUpdateSet\<close> over the captured-object map (lines 138-143):
  \<open>writeEntry\<close> is its body, \<open>writeLoop\<close> the loop.
\<close>

definition writeEntry :: "host \<Rightarrow> string \<times> string \<Rightarrow> unit prog" where
  "writeEntry h = (\<lambda>(key, tblName).
     bind (gr_get h tblName ''sys_id'' key) (\<lambda>gr.
     case gr of Some g \<Rightarrow> saveRecord h g | None \<Rightarrow> ret ()))"

definition writeLoop :: "host \<Rightarrow> unit prog" where
  "writeLoop h w = for_each (capturedObjectMap w) (writeEntry h) w"

text \<open>
  The \<^verbatim>\<open>try\<close> block of \<open>writeUpdateSet\<close> with its \<^verbatim>\<open>catch\<close> (lines 130-147), for the
  update set \<open>usGR\<close> to write to.
\<close>

definition writeCapturedObjects :: "host \<Rightarrow> glide_record \<Rightarrow> unit prog" where
  "writeCapturedObjects h usGR =
     try_catch
       (seq [gs_log (Log ''writeUpdateSet: Moving to Update Set'' [gr_field usGR ''name'']),
             gus_set h (sys_id usGR),
             gs_log (Log ''writeUpdateSet: Writing captured objects to update set'' []),
             writeLoop h,
             gs_log (Log ''writeUpdateSet: Finished writing captured objects to update set'' [])])
       (\<lambda>ex. gs_log (LogCaught ''writeUpdateSet: ERROR while writing update set!:'' ex))"

text \<open>
  The \<^verbatim>\<open>finally\<close> block of \<open>writeUpdateSet\<close> (lines 148-159), for the update set that
  was current when the function was called.
\<close>

definition restoreUpdateSet :: "host \<Rightarrow> string \<Rightarrow> glide_record \<Rightarrow> unit prog" where
  "restoreUpdateSet h currUpdateSetSysId currUpdateSetGR =
     seq [flushObjectCache,
          gus_set h currUpdateSetSysId,
          bind gus_get (\<lambda>now.
            if now \<noteq> currUpdateSetSysId
            then gs_log (Log ''writeUpdateSet: WARNING: Failed to move back to originally selected update set.  MAKE SURE TO DO SO MANUALLY'' [])
            else gs_log (Log ''writeUpdateSet: Moved back to original update set successfully''
                   [gr_field currUpdateSetGR ''name'']))]"

text \<open>
  \<open>writeUpdateSet\<close> (lines 94-160).  The function has no \<^verbatim>\<open>return\<close> statement: a call
  that completes yields \<open>undefined\<close>.
\<close>

definition writeUpdateSet :: "host \<Rightarrow> jsval \<Rightarrow> jsval prog" where
  "writeUpdateSet h updateSetName =
     (if JSUtil_nil updateSetName
      then throw (NilParameter ''xSNUpdateSetBuilder.writeUpdateSet'' ''updateSetName'')
      else
        bind (getCurrentScopeGR h) (\<lambda>currentScopepGR.
        let currentScopeSysId = sys_id currentScopepGR in
        bind (gs_log (Log ''writeUpdateSet: Called to write captured objects to''
                [js_str updateSetName, gr_field currentScopepGR ''name''])) (\<lambda>_.
        bind gus_get (\<lambda>currUpdateSetSysId.
        bind (gr_get h UPDATE_SET ''sys_id'' currUpdateSetSysId) (\<lambda>currUpdateSetGR.
        case currUpdateSetGR of
          None \<Rightarrow> throw (Failure ''xSNUpdateSetBuilder.writeUpdateSet''
                     ''Unable to retrieve GR for current update set!'')
        | Some currGR \<Rightarrow>
        bind (gs_log (Log ''writeUpdateSet: User's current update set is'' [gr_field currGR ''name''])) (\<lambda>_.
        bind (gr_query h UPDATE_SET
                [AddQuery ''application'' currentScopeSysId, AddQuery ''name'' (js_str updateSetName)]) (\<lambda>rows.
        bind (case rows of
                [] \<Rightarrow>
                  bind (gr_insert h UPDATE_SET
                          [(''application'', currentScopeSysId), (''name'', js_str updateSetName)]) (\<lambda>g.
                  bind (gs_log (Log ''writeUpdateSet: CREATED new update set named'' [gr_field g ''name''])) (\<lambda>_.
                  ret g))
              | r # _ \<Rightarrow>
                  bind (gs_log (Log ''writeUpdateSet: EXISTING update set found, named'' [row_field r ''name''])) (\<lambda>_.
                  ret (GR UPDATE_SET r))) (\<lambda>usGR.
        bind (try_finally (writeCapturedObjects h usGR)
                (restoreUpdateSet h currUpdateSetSysId currGR)) (\<lambda>_.
        ret JSUndefined)))))))))"

text \<open>\<open>captureTableNumber\<close> (lines 758-772).\<close>

definition captureTableNumber :: "host \<Rightarrow> jsval \<Rightarrow> unit prog" where
  "captureTableNumber h tblName =
     (if JSUtil_nil tblName
      then throw (NilParameter ''xSNUpdateSetBuilder.captureTableNumber'' ''tblName'')
      else let tblName = js_str tblName in
        bind (gr_get h SYS_DB_OBJECT ''name'' tblName) (\<lambda>tblGR.
        case tblGR of
          None \<Rightarrow> throw (NoSuchRecord ''xSNUpdateSetBuilder.captureTableNumber'' SYS_DB_OBJECT tblName)
        | Some _ \<Rightarrow> captureObjectsFromGRQuery h (Some (TABLE_NUMBER, [AddQuery ''category'' tblName]))))"

text \<open>\<open>captureACLsForTable\<close> (lines 603-629).\<close>

definition captureACLsForTable :: "host \<Rightarrow> jsval \<Rightarrow> unit prog" where
  "captureACLsForTable h tblName =
     (if JSUtil_nil tblName
      then throw (NilParameter ''xSNUpdateSetBuilder.captureACLsForTable'' ''tblName'')
      else let tblName = js_str tblName in
        bind (gr_query h SYS_DB_OBJECT [AddQuery ''name'' tblName]) (\<lambda>tblGRCount.
        if tblGRCount = []
        then throw (NoSuchRecord ''xSNUpdateSetBuilder.captureACLsForTable'' SYS_DB_OBJECT tblName)
        else
          bind (gr_query h SYS_SECURITY_ACL [AddQuery ''name'' tblName]) (\<lambda>acls.
          for_each acls (\<lambda>acl.
            seq [recordObject h (Some (GR SYS_SECURITY_ACL acl)),
                 bind (gr_query h SYS_SECURITY_ACL_ROLE
                         [AddQuery ''sys_security_acl'' (row_field acl ''sys_id'')]) (\<lambda>_. ret ()),
                 captureObjectsFromGRQuery h
                   (Some (SYS_SECURITY_ACL_ROLE,
                          [AddQuery ''sys_security_acl'' (row_field acl ''sys_id'')]))]))))"

text \<open>\<open>captureACLsForTableAndField\<close> (lines 640-677).\<close>

definition captureACLsForTableAndField :: "host \<Rightarrow> jsval \<Rightarrow> jsval \<Rightarrow> unit prog" where
  "captureACLsForTableAndField h tblName fieldName =
     (if JSUtil_nil tblName
      then throw (NilParameter ''xSNUpdateSetBuilder.captureACLsForTableAndField'' ''tblName'')
      else if JSUtil_nil fieldName
      then throw (NilParameter ''xSNUpdateSetBuilder.captureACLsForTableAndField'' ''fieldName'')
      else let tblName = js_str tblName; fieldName = js_str fieldName in
        bind (gr_query h SYS_DB_OBJECT [AddQuery ''name'' tblName]) (\<lambda>tblGRCount.
        if tblGRCount = []
        then throw (NoSuchRecord ''xSNUpdateSetBuilder.captureACLsForTableAndField'' SYS_DB_OBJECT tblName)
        else
          bind (gr_query h SYS_DICTIONARY
                  [AddQuery ''name'' tblName, AddQuery ''element'' fieldName]) (\<lambda>fieldGRCount.
          if fieldGRCount = []
          then throw (NoSuchRecord ''xSNUpdateSetBuilder.captureACLsForTableAndField'' SYS_DICTIONARY
                        (tblName @ ''.'' @ fieldName))
          else
            bind (gr_query h SYS_SECURITY_ACL [AddQuery ''name'' (tblName @ ''.'' @ fieldName)]) (\<lambda>acls.
            for_each acls (\<lambda>acl.
              seq [recordObject h (Some (GR SYS_SECURITY_ACL acl)),
                   captureObjectsFromGRQuery h
                     (Some (SYS_SECURITY_ACL_ROLE,
                            [AddQuery ''sys_security_acl'' (row_field acl ''sys_id'')]))])))))"

text \<open>\<open>captureUIPolicesForTable\<close> (lines 687-713).\<close>

definition captureUIPolicesForTable :: "host \<Rightarrow> jsval \<Rightarrow> unit prog" where
  "captureUIPolicesForTable h tblName =
     (if JSUtil_nil tblName
      then throw (NilParameter ''xSNUpdateSetBuilder.captureUIPolicesForTable'' ''tblName'')
      else let tblName = js_str tblName in
        bind (gr_query h SYS_DB_OBJECT [AddQuery ''name'' tblName]) (\<lambda>tblGRCount.
        if tblGRCount = []
        then throw (NoSuchRecord ''xSNUpdateSetBuilder.captureUIPolicesForTable'' SYS_DB_OBJECT tblName)
        else
          bind (gr_query h UI_POLICY [AddQuery ''table'' tblName]) (\<lambda>uis.
          for_each uis (\<lambda>ui.
            seq [recordObject h (Some (GR UI_POLICY ui)),
                 bind (gr_query h UI_POLICY_ACTION
                         [AddQuery ''ui_policy'' (row_field ui ''sys_id'')]) (\<lambda>_. ret ()),
                 captureObjectsFromGRQuery h
                   (Some (UI_POLICY_ACTION, [AddQuery ''ui_policy'' (row_field ui ''sys_id'')]))]))))"

text \<open>\<open>captureDataPolicesForTable\<close> (lines 723-748).\<close>

definition captureDataPolicesForTable :: "host \<Rightarrow> jsval \<Rightarrow> unit prog" where
  "captureDataPolicesForTable h tblName =
     (if JSUtil_nil tblName
      then throw (NilParameter ''xSNUpdateSetBuilder.captureDataPolicesForTable'' ''tblName'')
      else let tblName = js_str tblName in
        bind (gr_query h SYS_DB_OBJECT [AddQuery ''name'' tblName]) (\<lambda>tblGRCount.
        if tblGRCount = []
        then throw (NoSuchRecord ''xSNUpdateSetBuilder.captureDataPolicesForTable'' SYS_DB_OBJECT tblName)
        else
          bind (gr_query h DATA_POLICY [AddQuery ''model_table'' tblName]) (\<lambda>dps.
          for_each dps (\<lambda>dp.
            seq [recordObject h (Some (GR DATA_POLICY dp)),
                 captureObjectsFromGRQuery h
                   (Some (DATA_POLICY_RULE,
                          [AddQuery ''sys_data_policy'' (row_field dp ''sys_id'')]))]))))"

text \<open>\<open>captureListLayoutsForTable\<close> (lines 784-820).\<close>

definition captureListLayoutsForTable :: "host \<Rightarrow> jsval \<Rightarrow> unit prog" where
  "captureListLayoutsForTable h tblName =
     (if JSUtil_nil tblName
      then throw (NilParameter ''xSNUpdateSetBuilder.captureListLayoutsForTable'' ''tblName'')
      else let tblName = js_str tblName in
        seq [bind (gr_query h LIST_LAYOUT
                     [AddQuery ''name'' tblName, AddNotNullQuery ''view'',
                      AddNullQuery ''sys_user'', AddNullQuery ''relationship'']) (\<lambda>lsts.
             for_each lsts (\<lambda>lst.
               bind (getRefRecord h (GR LIST_LAYOUT lst) ''view'') (\<lambda>vw.
               let vwNameUpper = toUpperCase (gr_field vw ''name'') in
               if startsWith vwNameUpper ''RPT''
               then ret ()
               else seq [captureUIView h (JSString (sys_id vw)),
                         recordObject h (Some (GR LIST_LAYOUT lst))]))),
             bind (gr_query h LIST_CONTROL [AddQuery ''name'' tblName]) (\<lambda>lcs.
             for_each lcs (\<lambda>lc. recordObject h (Some (GR LIST_CONTROL lc))))])"

text \<open>\<open>captureFormLayoutsForTable\<close> (lines 836-894).\<close>

definition captureFormLayoutsForTable :: "host \<Rightarrow> jsval \<Rightarrow> unit prog" where
  "captureFormLayoutsForTable h tblName =
     (if JSUtil_nil tblName
      then throw (NilParameter ''xSNUpdateSetBuilder.captureFormLayoutsForTable'' ''tblName'')
      else let tblName = js_str tblName in
        bind (gr_query h FORM [AddQuery ''name'' tblName, AddNotNullQuery ''view'']) (\<lambda>frms.
        for_each frms (\<lambda>frm.
          bind (getRefRecord h (GR FORM frm) ''view'') (\<lambda>vw.
          let vwSysId = sys_id vw;
              vwNameUpper = toUpperCase (gr_field vw ''name'') in
          if startsWith vwNameUpper ''RPT''
          then ret ()
          else
            seq [recordObject h (Some (GR FORM frm)),
                 bind (gr_query h FORM_SECTION
                         [AddQuery ''sys_ui_form'' (row_field frm ''sys_id''),
                          AddNotNullQuery ''sys_ui_section'']) (\<lambda>frs1s.
                 for_each frs1s (\<lambda>frs1.
                   bind (getRefRecord h (GR FORM_SECTION frs1) ''sys_ui_section'') (\<lambda>frs2.
                   recordObject h (Some frs2)))),
                 bind (gr_query h FORM_RELATED_LIST
                         [AddQuery ''name'' tblName, AddQuery ''view'' vwSysId]) (\<lambda>rels.
                 case rels of
                   r # _ \<Rightarrow> recordObject h (Some (GR FORM_RELATED_LIST r))
                 | [] \<Rightarrow> gs_log (Log ''WARNING: No Related List found for Table for View''
                                 [tblName, gr_field vw ''name'']))]))))"

text \<open>\<open>captureTableFieldAndAssociatedObjects\<close> (lines 904-944).\<close>

definition captureTableFieldAndAssociatedObjects :: "host \<Rightarrow> jsval \<Rightarrow> jsval \<Rightarrow> unit prog" where
  "captureTableFieldAndAssociatedObjects h tblName fldName =
     (if JSUtil_nil tblName
      then throw (NilParameter ''xSNUpdateSetBuilder.captureTableFieldAndAssociatedObjects'' ''tblName'')
      else if JSUtil_nil fldName
      then throw (NilParameter ''xSNUpdateSetBuilder.captureTableFieldAndAssociatedObjects'' ''fldName'')
      else let tblName = js_str tblName; fldName = js_str fldName in
        bind (gr_query h SYS_DICTIONARY
                [AddQuery ''name'' tblName, AddQuery ''element'' fldName]) (\<lambda>dicts.
        case dicts of
          [] \<Rightarrow> throw (NoSuchRecord ''xSNUpdateSetBuilder.captureTableFieldAndAssociatedObjects''
                     SYS_DICTIONARY (tblName @ ''.'' @ fldName))
        | dict # _ \<Rightarrow>
            seq [recordObject h (Some (GR SYS_DICTIONARY dict)),
                 captureObjectsFromGRQuery h
                   (Some (SYS_DOCUMENTATION, [AddQuery ''name'' tblName, AddQuery ''element'' fldName])),
                 captureObjectsFromGRQuery h
                   (Some (SYS_CHOICE, [AddQuery ''name'' tblName, AddQuery ''element'' fldName])),
                 captureACLsForTableAndField h (JSString tblName) (JSString fldName),
                 captureObjectsFromGRQuery h
                   (Some (SYS_DICTIONARY_OVERRIDE,
                          [AddQuery ''name'' tblName, AddQuery ''element'' fldName]))]))"

text \<open>\<open>captureTableWithRelatedObjects\<close> (lines 190-259).\<close>

definition captureTableWithRelatedObjects :: "host \<Rightarrow> jsval \<Rightarrow> unit prog" where
  "captureTableWithRelatedObjects h tblName =
     (if JSUtil_nil tblName
      then throw (NilParameter ''xSNUpdateSetBuilder.captureTableWithRelatedObjects'' ''tblName'')
      else let tblName = js_str tblName in
        bind (gr_get h SYS_DB_OBJECT ''name'' tblName) (\<lambda>tblGR.
        case tblGR of
          None \<Rightarrow> throw (NoSuchRecord ''xSNUpdateSetBuilder.captureTableWithRelatedObjects''
                       SYS_DB_OBJECT tblName)
        | Some g \<Rightarrow>
            seq [recordObject h (Some g),
                 captureObjectsFromGRQuery h
                   (Some (SYS_DICTIONARY, [AddQuery ''name'' tblName, AddNullQuery ''element''])),
                 captureTableNumber h (JSString tblName),
                 captureACLsForTable h (JSString tblName),
                 captureObjectsFromGRQuery h (Some (SYS_SCRIPT_CLIENT, [AddQuery ''table'' tblName])),
                 captureObjectsFromGRQuery h (Some (SYS_SCRIPT, [AddQuery ''collection'' tblName])),
                 captureObjectsFromGRQuery h (Some (UI_ACTION, [AddQuery ''table'' tblName])),
                 captureUIPolicesForTable h (JSString tblName),
                 captureDataPolicesForTable h (JSString tblName),
                 captureObjectsFromGRQuery h (Some (UI_STYLE, [AddQuery ''name'' tblName])),
                 captureObjectsFromGRQuery h (Some (TABLE_VIEW_RULE, [AddQuery ''table'' tblName])),
                 bind (gr_query h SYS_DICTIONARY
                         [AddNotNullQuery ''element'', AddQuery ''name'' tblName]) (\<lambda>dicts.
                 for_each dicts (\<lambda>dict.
                   captureTableFieldAndAssociatedObjects h (JSString tblName)
                     (JSString (row_field dict ''element'')))),
                 captureFormLayoutsForTable h (JSString tblName),
                 captureListLayoutsForTable h (JSString tblName)]))"

text \<open>\<open>captureCatalogUIPolicy\<close> (lines 989-1003).\<close>

definition captureCatalogUIPolicy :: "host \<Rightarrow> jsval \<Rightarrow> unit prog" where
  "captureCatalogUIPolicy h catUIPolicySysId =
     (if JSUtil_nil catUIPolicySysId
      then throw (NilParameter ''xSNUpdateSetBuilder.captureCatalogUIPolicy'' ''catUIPolicySysId'')
      else
        bind (gr_get h CATALOG_ITEM_UI_POLICY ''sys_id'' (js_str catUIPolicySysId)) (\<lambda>catUIPolicy.
        case catUIPolicy of
          None \<Rightarrow> throw (NoSuchRecord ''xSNUpdateSetBuilder.captureCatalogUIPolicy''
                       CATALOG_ITEM_UI_POLICY (js_str catUIPolicySysId))
        | Some g \<Rightarrow>
            seq [recordObject h (Some g),
                 captureObjectsFromGRQuery h
                   (Some (CATALOG_ITEM_UI_POLICY_ACTION,
                          [AddQuery ''ui_policy'' (js_str catUIPolicySysId)]))]))"

text \<open>
  \<open>captureServiceCatalogVariable\<close> (lines 1014-1067).  The \<^verbatim>\<open>switch\<close> on
  \<^verbatim>\<open>"" + varGR.type\<close> has the case groups '14'/'17', '3'/'5' and '15' and no default.
\<close>

definition captureServiceCatalogVariable :: "host \<Rightarrow> jsval \<Rightarrow> unit prog" where
  "captureServiceCatalogVariable h varSysId =
     (if JSUtil_nil varSysId
      then throw (NilParameter ''xSNUpdateSetBuilder.captureServiceCatalogVariable'' ''varSysId'')
      else
        bind (gr_get h CATALOG_ITEM_VARIABLE ''sys_id'' (js_str varSysId)) (\<lambda>varGR.
        case varGR of
          None \<Rightarrow> throw (NoSuchRecord ''xSNUpdateSetBuilder.captureServiceCatalogVariable''
                       CATALOG_ITEM_VARIABLE (js_str varSysId))
        | Some g \<Rightarrow>
            seq [recordObject h (Some g),
                 (let ty = gr_field g ''type'' in
                  if ty = ''14'' \<or> ty = ''17'' then
                    seq [if gr_field g ''macro'' \<noteq> []
                         then bind (getRefRecord h g ''macro'') (\<lambda>r. recordObject h (Some r))
                         else ret (),
                         if gr_field g ''summary_macro'' \<noteq> []
                         then bind (getRefRecord h g ''summary_macro'') (\<lambda>r. recordObject h (Some r))
                         else ret (),
                         if gr_field g ''sp_widget'' \<noteq> []
                         then seq [gs_log (Log ''WARNING: This Variable links to a SP Widget, which are not fully supported for capture.'' []),
                                   bind (getRefRecord h g ''sp_widget'') (\<lambda>r. recordObject h (Some r))]
                         else ret (),
                         if gr_field g ''macroponent'' \<noteq> []
                         then seq [gs_log (Log ''WARNING: This Variable links to a Macroponent, which are not fully supported for capture.'' []),
                                   bind (getRefRecord h g ''macroponent'') (\<lambda>r. recordObject h (Some r))]
                         else ret ()]
                  else if ty = ''3'' \<or> ty = ''5'' then
                    captureObjectsFromGRQuery h
                      (Some (CATALOG_ITEM_VARIABLE_QUESTION_CHOICE, [AddQuery ''question'' (sys_id g)]))
                  else if ty = ''15'' then
                    (if gr_field g ''ui_page'' \<noteq> []
                     then bind (getRefRecord h g ''ui_page'') (\<lambda>r. recordObject h (Some r))
                     else ret ())
                  else ret ())]))"

text \<open>\<open>captureServiceCatalogItem\<close> (lines 281-357).\<close>

definition captureServiceCatalogItem :: "host \<Rightarrow> jsval \<Rightarrow> unit prog" where
  "captureServiceCatalogItem h catSysId =
     (if JSUtil_nil catSysId
      then throw (NilParameter ''xSNUpdateSetBuilder.captureServiceCatalogItem'' ''catSysId'')
      else
        bind (gr_get h CATALOG_ITEM ''sys_id'' (js_str catSysId)) (\<lambda>catItemGR.
        case catItemGR of
          None \<Rightarrow> throw (NoSuchRecord ''xSNUpdateSetBuilder.captureServiceCatalogItem''
                       CATALOG_ITEM (js_str catSysId))
        | Some g \<Rightarrow>
            if gr_field g ''sys_class_name'' \<noteq> CATALOG_ITEM
            then throw (UnsupportedSubclass ''xSNUpdateSetBuilder.captureServiceCatalogItem''
                          (js_str catSysId) (gr_field g ''sys_class_name''))
            else
              seq [recordObject h (Some g),
                   bind (gr_query h CATALOG_ITEM_VARIABLE [AddQuery ''cat_item'' (js_str catSysId)]) (\<lambda>catVars.
                   for_each catVars (\<lambda>v.
                     captureServiceCatalogVariable h (JSString (row_field v ''sys_id'')))),
                   bind (gr_query h CATALOG_ITEM_VARIABLE_SET_M2M
                           [AddQuery ''sc_cat_item'' (js_str catSysId),
                            AddNotNullQuery ''variable_set'']) (\<lambda>varSetsM2M.
                   for_each varSetsM2M (\<lambda>m2m.
                     bind (recordObject h (Some (GR CATALOG_ITEM_VARIABLE_SET_M2M m2m))) (\<lambda>_.
                     bind (getRefRecord h (GR CATALOG_ITEM_VARIABLE_SET_M2M m2m) ''variable_set'') (\<lambda>varSet.
                     seq [if isValidRecord varSet then recordObject h (Some varSet) else ret (),
                          bind (gr_query h CATALOG_ITEM_VARIABLE
                                  [AddQuery ''variable_set'' (sys_id varSet)]) (\<lambda>varSetVars.
                          for_each varSetVars (\<lambda>v.
                            captureServiceCatalogVariable h (JSString (row_field v ''sys_id'')))),
                          bind (gr_query h CATALOG_ITEM_UI_POLICY
                                  [AddQuery ''variable_set'' (sys_id varSet),
                                   AddQuery ''applies_to'' ''set'']) (\<lambda>varSetUIPolicy.
                          for_each varSetUIPolicy (\<lambda>p.
                            captureCatalogUIPolicy h (JSString (row_field p ''sys_id'')))),
                          captureObjectsFromGRQuery h
                            (Some (CATALOG_ITEM_CLIENT_SCRIPT,
                                   [AddQuery ''variable_set'' (sys_id varSet),
                                    AddQuery ''applies_to'' ''set'']))])))),
                   bind (gr_query h CATALOG_ITEM_UI_POLICY
                           [AddQuery ''catalog_item'' (js_str catSysId),
                            AddQuery ''applies_to'' ''item'']) (\<lambda>catUIPolicy.
                   for_each catUIPolicy (\<lambda>p.
                     captureCatalogUIPolicy h (JSString (row_field p ''sys_id'')))),
                   captureObjectsFromGRQuery h
                     (Some (CATALOG_ITEM_CLIENT_SCRIPT,
                            [AddQuery ''cat_item'' (js_str catSysId),
                             AddQuery ''applies_to'' ''item'']))]))"

text \<open>\<open>captureDatabaseView\<close> (lines 367-400).\<close>

definition captureDatabaseView :: "host \<Rightarrow> jsval \<Rightarrow> unit prog" where
  "captureDatabaseView h vName =
     (if JSUtil_nil vName
      then throw (NilParameter ''xSNUpdateSetBuilder.captureDatabaseView'' ''vName'')
      else let vName = js_str vName in
        bind (gr_query h DATABASE_VIEW [AddQuery ''name'' vName]) (\<lambda>vws.
        case vws of
          [] \<Rightarrow> throw (NoSuchRecord ''xSNUpdateSetBuilder.captureDatabaseView'' DATABASE_VIEW vName)
        | vw # _ \<Rightarrow>
            seq [recordObject h (Some (GR DATABASE_VIEW vw)),
                 captureFormLayoutsForTable h (JSString vName),
                 captureListLayoutsForTable h (JSString vName),
                 bind (gr_query h DATABASE_VIEW_TABLE [AddQuery ''view'' (row_field vw ''sys_id'')]) (\<lambda>tbls.
                 for_each tbls (\<lambda>tbl.
                   seq [recordObject h (Some (GR DATABASE_VIEW_TABLE tbl)),
                        bind (gr_query h DATABASE_VIEW_TABLE_FIELD
                                [AddQuery ''view_table'' (row_field tbl ''sys_id'')]) (\<lambda>flds.
                        for_each flds (\<lambda>fld. recordObject h (Some (GR DATABASE_VIEW_TABLE_FIELD fld))))]))]))"

text \<open>\<open>captureApplicationMenuAndModules\<close> (lines 412-430).\<close>

definition captureApplicationMenuAndModules :: "host \<Rightarrow> jsval \<Rightarrow> unit prog" where
  "captureApplicationMenuAndModules h menuSysId =
     (if JSUtil_nil menuSysId
      then throw (NilParameter ''xSNUpdateSetBuilder.captureApplicationMenuAndModules'' ''menuSysId'')
      else let menuSysId = js_str menuSysId in
        bind (gr_get h APPLICATION_MENU ''sys_id'' menuSysId) (\<lambda>appMenu.
        case appMenu of
          None \<Rightarrow> throw (NoSuchRecord ''xSNUpdateSetBuilder.captureApplicationMenuAndModules''
                       APPLICATION_MENU menuSysId)
        | Some g \<Rightarrow>
            seq [recordObject h (Some g),
                 captureObjectsFromGRQuery h
                   (Some (APPLICATION_MENU_MODULE, [AddQuery ''application'' (sys_id g)]))]))"

text \<open>\<open>captureScriptIncludeByName\<close> (lines 439-447).\<close>

definition captureScriptIncludeByName :: "host \<Rightarrow> jsval \<Rightarrow> unit prog" where
  "captureScriptIncludeByName h scrName =
     (if JSUtil_nil scrName
      then throw (NilParameter ''xSNUpdateSetBuilder.captureScriptIncludeByName'' ''scrName'')
      else let apiName = js_str (getCurrentScopeName h) @ ''.'' @ js_str scrName in
        bind (captureUniqueGRObject h (Some (SCRIPT_INCLUDE, [AddQuery ''api_name'' apiName]))
                ''xSNUpdateSetBuilder.captureScriptIncludeByName'') (\<lambda>_. ret ()))"

text \<open>\<open>captureUserRole\<close> (lines 455-464).\<close>

definition captureUserRole :: "host \<Rightarrow> jsval \<Rightarrow> unit prog" where
  "captureUserRole h roleName =
     (if JSUtil_nil roleName
      then throw (NilParameter ''xSNUpdateSetBuilder.captureUserRole'' ''roleName'')
      else let roleName = js_str roleName in
        bind (captureUniqueGRObject h
                (Some (ROLE, [AddQuery ''sys_scope'' (js_str (getCurrentScopeName h)),
                              AddQuery ''name'' roleName]))
                ''xSNUpdateSetBuilder.captureUserRole'') (\<lambda>_. ret ()))"

text \<open>
  \<open>captureApplicationRecord\<close> (lines 475-483); its message names
  \<open>captureTableNumber\<close>.
\<close>

definition captureApplicationRecord :: "host \<Rightarrow> jsval \<Rightarrow> unit prog" where
  "captureApplicationRecord h appName =
     (if JSUtil_nil appName
      then throw (NilParameter ''xSNUpdateSetBuilder.captureTableNumber'' ''appName'')
      else let appName = js_str appName in
        bind (captureUniqueGRObject h (Some (SYS_APPLICATION, [AddQuery ''name'' appName]))
                ''xSNUpdateSetBuilder.captureApplicationRecord'') (\<lambda>_. ret ()))"

text \<open>\<open>captureSystemProperty\<close> (lines 524-532).\<close>

definition captureSystemProperty :: "host \<Rightarrow> jsval \<Rightarrow> unit prog" where
  "captureSystemProperty h propName =
     (if JSUtil_nil propName
      then throw (NilParameter ''xSNUpdateSetBuilder.captureSystemProperty'' ''propName'')
      else
        bind (captureUniqueGRObject h (Some (SYS_PROPERTIES, [AddQuery ''name'' (js_str propName)]))
                ''xSNUpdateSetBuilder.captureSystemProperty'') (\<lambda>_. ret ()))"

text \<open>\<open>captureSystemPropertyCategoryWithAssociations\<close> (lines 493-516).\<close>

definition captureSystemPropertyCategoryWithAssociations :: "host \<Rightarrow> jsval \<Rightarrow> unit prog" where
  "captureSystemPropertyCategoryWithAssociations h catName =
     (if JSUtil_nil catName
      then throw (NilParameter ''captureSystemPropertyCategory'' ''catName'')
      else
        bind (captureUniqueGRObject h
                (Some (SYS_PROPERTIES_CATEGORY, [AddQuery ''name'' (js_str catName)]))
                ''xSNUpdateSetBuilder.captureSystemPropertyCategoryWithAssociations'') (\<lambda>cat.
        bind (gr_query h SYS_PROPERTIES_CATEGORY_ASSOC
                [AddQuery ''category'' (sys_id cat), AddNotNullQuery ''property'']) (\<lambda>assocs.
        for_each assocs (\<lambda>assoc.
          bind (getRefRecord h (GR SYS_PROPERTIES_CATEGORY_ASSOC assoc) ''property'') (\<lambda>prop.
          seq [captureSystemProperty h (JSString (gr_field prop ''name'')),
               recordObject h (Some (GR SYS_PROPERTIES_CATEGORY_ASSOC assoc))])))))"

text \<open>\<open>captureEventRegistration\<close> (lines 540-547).\<close>

definition captureEventRegistration :: "host \<Rightarrow> jsval \<Rightarrow> unit prog" where
  "captureEventRegistration h evtName =
     (if JSUtil_nil evtName
      then throw (NilParameter ''xSNUpdateSetBuilder.captureEventRegistration'' ''evtName'')
      else
        bind (captureUniqueGRObject h (Some (SYS_EVENT, [AddQuery ''event_name'' (js_str evtName)]))
                ''xSNUpdateSetBuilder.captureEventRegistration'') (\<lambda>_. ret ()))"

text \<open>
  \<open>captureDataRecordsFromTable\<close> (lines 557-569).  The query runs twice, once here and
  once in \<open>_captureObjectsFromGRQuery\<close>.
\<close>

definition captureDataRecordsFromTable :: "host \<Rightarrow> jsval \<Rightarrow> jsval \<Rightarrow> unit prog" where
  "captureDataRecordsFromTable h tblName queryCondition =
     (if JSUtil_nil tblName
      then throw (NilParameter ''xSNUpdateSetBuilder.captureDataRecordsFromTable'' ''tblName'')
      else let tblName = js_str tblName;
               cs = (if \<not> JSUtil_nil queryCondition then [AddEncodedQuery (js_str queryCondition)] else [])
        in
        bind (gr_query h tblName cs) (\<lambda>rows.
        seq [captureObjectsFromGRQuery h (Some (tblName, cs)),
             gs_log (LogCount ''xSNUpdateSetBuilder.captureDataRecordsFromTable: captured records''
                       (length rows))]))"

text \<open>
  \<open>captureDataRecord\<close> (lines 580-593).  Its argument is any script value: \<open>null\<close>,
  \<open>undefined\<close>, a GlideRecord, or something that is not a GlideRecord.
\<close>

datatype jsarg = ArgNull | ArgUndefined | ArgOther | ArgGlideRecord glide_record

definition captureDataRecord :: "host \<Rightarrow> jsarg \<Rightarrow> unit prog" where
  "captureDataRecord h gr =
     (case gr of
        ArgNull \<Rightarrow> throw (BadArgument ''xSNUpdateSetBuilder.captureDataRecord'' ''parameter 'gr' is null!'')
      | ArgUndefined \<Rightarrow>
          throw (BadArgument ''xSNUpdateSetBuilder.captureDataRecord'' ''parameter 'gr' is undefined!'')
      | ArgOther \<Rightarrow>
          throw (BadArgument ''xSNUpdateSetBuilder.captureDataRecord''
                   ''parameter 'gr' must be a GlideRecord!'')
      | ArgGlideRecord g \<Rightarrow>
          let tblName = getTableName g in
          if tblName = []
          then throw (BadArgument ''xSNUpdateSetBuilder.captureDataRecord''
                        ''parameter 'gr' must be initialied to a table!'')
          else recordObject h (Some g))"

text \<open>
  \<open>captureArchivalRule\<close> (lines 952-981) calls itself for every related record that
  names another rule.  The recursion need not end, so the model takes fuel: the number of
  nested calls still allowed.  \<open>None\<close> means that the fuel did not suffice.
  \<open>archiveRelatedLoop\<close> is the \<^verbatim>\<open>while (rel.next())\<close> loop of the function.
\<close>

fun captureArchivalRule :: "nat \<Rightarrow> host \<Rightarrow> jsval \<Rightarrow> world \<Rightarrow> (unit outcome \<times> world) option"
  and archiveRelatedLoop :: "nat \<Rightarrow> host \<Rightarrow> string \<Rightarrow> row list \<Rightarrow> world \<Rightarrow> (unit outcome \<times> world) option"
where
  "captureArchivalRule n h ruleSysId w =
     (if JSUtil_nil ruleSysId
      then Some (throw (NilParameter ''captureArchivalRule'' ''ruleSysId'') w)
      else
        (case gr_get h ARCHIVE_RULE ''sys_id'' (js_str ruleSysId) w of
           (Throw e, w1) \<Rightarrow> Some (Throw e, w1)
         | (Return None, w1) \<Rightarrow>
             Some (throw (NoSuchRecord ''xSNUpdateSetBuilder.captureArchivalRule'' ARCHIVE_RULE
                            (js_str ruleSysId)) w1)
         | (Return (Some rul), w1) \<Rightarrow>
             (case bind (recordObject h (Some rul))
                     (\<lambda>_. gr_query h ARCHIVE_RULE_RELATED [AddQuery ''archive_map'' (js_str ruleSysId)]) w1 of
                (Throw e, w2) \<Rightarrow> Some (Throw e, w2)
              | (Return rels, w2) \<Rightarrow> archiveRelatedLoop n h (js_str ruleSysId) rels w2)))"
| "archiveRelatedLoop n h ruleSysId [] w = Some (Return (), w)"
| "archiveRelatedLoop n h ruleSysId (rel # rels) w =
     (case recordObject h (Some (GR ARCHIVE_RULE_RELATED rel)) w of
        (Throw e, w1) \<Rightarrow> Some (Throw e, w1)
      | (Return _, w1) \<Rightarrow>
          if row_field rel ''table_archive_rule'' \<noteq> []
          then
            (let chld = row_field rel ''table_archive_rule'' in
             if chld \<noteq> ruleSysId
             then
               (case n of
                  0 \<Rightarrow> None
                | Suc m \<Rightarrow>
                    (case captureArchivalRule m h (JSString chld) w1 of
                       None \<Rightarrow> None
                     | Some (Throw e, w2) \<Rightarrow> Some (Throw e, w2)
                     | Some (Return _, w2) \<Rightarrow> archiveRelatedLoop n h ruleSysId rels w2))
             else archiveRelatedLoop n h ruleSysId rels w1)
          else archiveRelatedLoop n h ruleSysId rels w1)"

section \<open>The public API as a whole\<close>

text \<open>
  One constructor for each public function of the class with its arguments, and the call
  it stands for.  The fuel is handed to \<open>captureArchivalRule\<close>; every other function
  returns without it.
\<close>

datatype api_call =
    WriteUpdateSet jsval
  | CaptureTableWithRelatedObjects jsval
  | CaptureServiceCatalogItem jsval
  | CaptureDatabaseView jsval
  | CaptureApplicationMenuAndModules jsval
  | CaptureScriptIncludeByName jsval
  | CaptureUserRole jsval
  | CaptureApplicationRecord jsval
  | CaptureSystemPropertyCategoryWithAssociations jsval
  | CaptureSystemProperty jsval
  | CaptureEventRegistration jsval
  | CaptureDataRecordsFromTable jsval jsval
  | CaptureDataRecord jsarg
  | CaptureACLsForTable jsval
  | CaptureACLsForTableAndField jsval jsval
  | CaptureUIPolicesForTable jsval
  | CaptureDataPolicesForTable jsval
  | CaptureTableNumber jsval
  | CaptureListLayoutsForTable jsval
  | CaptureFormLayoutsForTable jsval
  | CaptureTableFieldAndAssociatedObjects jsval jsval
  | CaptureArchivalRule jsval
  | CaptureCatalogUIPolicy jsval
  | CaptureServiceCatalogVariable jsval

definition void :: "'a prog \<Rightarrow> unit prog" where
  "void m = bind m (\<lambda>_. ret ())"

fun invoke :: "nat \<Rightarrow> host \<Rightarrow> api_call \<Rightarrow> world \<Rightarrow> (unit outcome \<times> world) option" where
  "invoke n h (WriteUpdateSet a) w = Some (void (writeUpdateSet h a) w)"
| "invoke n h (CaptureTableWithRelatedObjects a) w = Some (captureTableWithRelatedObjects h a w)"
| "invoke n h (CaptureServiceCatalogItem a) w = Some (captureServiceCatalogItem h a w)"
| "invoke n h (CaptureDatabaseView a) w = Some (captureDatabaseView h a w)"
| "invoke n h (CaptureApplicationMenuAndModules a) w = Some (captureApplicationMenuAndModules h a w)"
| "invoke n h (CaptureScriptIncludeByName a) w = Some (captureScriptIncludeByName h a w)"
| "invoke n h (CaptureUserRole a) w = Some (captureUserRole h a w)"
| "invoke n h (CaptureApplicationRecord a) w = Some (captureApplicationRecord h a w)"
| "invoke n h (CaptureSystemPropertyCategoryWithAssociations a) w =
     Some (captureSystemPropertyCategoryWithAssociations h a w)"
| "invoke n h (CaptureSystemProperty a) w = Some (captureSystemProperty h a w)"
| "invoke n h (CaptureEventRegistration a) w = Some (captureEventRegistration h a w)"
| "invoke n h (CaptureDataRecordsFromTable a b) w = Some (captureDataRecordsFromTable h a b w)"
| "invoke n h (CaptureDataRecord g) w = Some (captureDataRecord h g w)"
| "invoke n h (CaptureACLsForTable a) w = Some (captureACLsForTable h a w)"
| "invoke n h (CaptureACLsForTableAndField a b) w = Some (captureACLsForTableAndField h a b w)"
| "invoke n h (CaptureUIPolicesForTable a) w = Some (captureUIPolicesForTable h a w)"
| "invoke n h (CaptureDataPolicesForTable a) w = Some (captureDataPolicesForTable h a w)"
| "invoke n h (CaptureTableNumber a) w = Some (captureTableNumber h a w)"
| "invoke n h (CaptureListLayoutsForTable a) w = Some (captureListLayoutsForTable h a w)"
| "invoke n h (CaptureFormLayoutsForTable a) w = Some (captureFormLayoutsForTable h a w)"
| "invoke n h (CaptureTableFieldAndAssociatedObjects a b) w =
     Some (captureTableFieldAndAssociatedObjects h a b w)"
| "invoke n h (CaptureArchivalRule a) w = captureArchivalRule n h a w"
| "invoke n h (CaptureCatalogUIPolicy a) w = Some (captureCatalogUIPolicy h a w)"
| "invoke n h (CaptureServiceCatalogVariable a) w = Some (captureServiceCatalogVariable h a w)"

text \<open>
  The parameters a function requires, as its documentation declares them:
  \<open>queryCondition\<close> of \<open>captureDataRecordsFromTable\<close> is optional.
\<close>

fun jsarg_nil :: "jsarg \<Rightarrow> bool" where
  "jsarg_nil ArgNull = True"
| "jsarg_nil ArgUndefined = True"
| "jsarg_nil ArgOther = False"
| "jsarg_nil (ArgGlideRecord g) = False"

fun required_nil :: "api_call \<Rightarrow> bool" where
  "required_nil (WriteUpdateSet a) = JSUtil_nil a"
| "required_nil (CaptureTableWithRelatedObjects a) = JSUtil_nil a"
| "required_nil (CaptureServiceCatalogItem a) = JSUtil_nil a"
| "required_nil (CaptureDatabaseView a) = JSUtil_nil a"
| "required_nil (CaptureApplicationMenuAndModules a) = JSUtil_nil a"
| "required_nil (CaptureScriptIncludeByName a) = JSUtil_nil a"
| "required_nil (CaptureUserRole a) = JSUtil_nil a"
| "required_nil (CaptureApplicationRecord a) = JSUtil_nil a"
| "required_nil (CaptureSystemPropertyCategoryWithAssociations a) = JSUtil_nil a"
| "required_nil (CaptureSystemProperty a) = JSUtil_nil a"
| "required_nil (CaptureEventRegistration a) = JSUtil_nil a"
| "required_nil (CaptureDataRecordsFromTable a b) = JSUtil_nil a"
| "required_nil (CaptureDataRecord g) = jsarg_nil g"
| "required_nil (CaptureACLsForTable a) = JSUtil_nil a"
| "required_nil (CaptureACLsForTableAndField a b) = (JSUtil_nil a \<or> JSUtil_nil b)"
| "required_nil (CaptureUIPolicesForTable a) = JSUtil_nil a"
| "required_nil (CaptureDataPolicesForTable a) = JSUtil_nil a"
| "required_nil (CaptureTableNumber a) = JSUtil_nil a"
| "required_nil (CaptureListLayoutsForTable a) = JSUtil_nil a"
| "required_nil (CaptureFormLayoutsForTable a) = JSUtil_nil a"
| "required_nil (CaptureTableFieldAndAssociatedObjects a b) = (JSUtil_nil a \<or> JSUtil_nil b)"
| "required_nil (CaptureArchivalRule a) = JSUtil_nil a"
| "required_nil (CaptureCatalogUIPolicy a) = JSUtil_nil a"
| "required_nil (CaptureServiceCatalogVariable a) = JSUtil_nil a"

text \<open>The messages that report a missing argument.\<close>

fun invalid_argument :: "error \<Rightarrow> bool" where
  "invalid_argument (NilParameter f p) = True"
| "invalid_argument (BadArgument f m) = True"
| "invalid_argument e = False"

text \<open>
  Sequences of the two operations on the captured-object map, applied to a builder.
\<close>

datatype builder_op = RecordObject "glide_record option" | FlushObjectCache

fun apply_op :: "host \<Rightarrow> builder_op \<Rightarrow> world \<Rightarrow> world" where
  "apply_op h (RecordObject gr) w = snd (recordObject h gr w)"
| "apply_op h FlushObjectCache w = snd (flushObjectCache w)"

fun run_ops :: "host \<Rightarrow> builder_op list \<Rightarrow> world \<Rightarrow> world" where
  "run_ops h [] w = w"
| "run_ops h (x # xs) w = run_ops h xs (apply_op h x w)"

text \<open>
  Every call of \<open>_recordObject\<close> in the class passes \<open>null\<close>, or a GlideRecord that
  was created for a named table (a table of \<open>_TABLES\<close>, the non-nil table name given
  to \<open>captureDataRecordsFromTable\<close>, the table of a reference, or a record that passed
  the table check of \<open>captureDataRecord\<close>).  \<open>op_has_table\<close> says so of an operation.
\<close>

fun op_has_table :: "builder_op \<Rightarrow> bool" where
  "op_has_table (RecordObject (Some g)) = (getTableName g \<noteq> [])"
| "op_has_table (RecordObject None) = True"
| "op_has_table FlushObjectCache = True"

text \<open>The keys of the captured-object map.\<close>

definition map_keys :: "(string \<times> string) list \<Rightarrow> string set" where
  "map_keys m = fst ` set m"

section \<open>What the claims speak of\<close>

text \<open>
  The auxiliary objects of a catalog variable, in the words of the specification.  A
  reference field names a record by its identifier; \<open>linked\<close> is the identifier a
  reference field holds, if it holds one.  The type of the variable determines which
  references count: the UI page for type '15'; the macro, summary macro, SP widget and
  macroponent for types '14' and '17'; none for any other type.  For types '3' and '5'
  the auxiliary objects are the question choices of the variable, the rows of
  \<open>question_choice\<close> whose question it is.
\<close>

definition linked :: "glide_record \<Rightarrow> string \<Rightarrow> string set" where
  "linked g f = (if gr_field g f \<noteq> [] then {gr_field g f} else {})"

definition auxiliary_references :: "glide_record \<Rightarrow> string list" where
  "auxiliary_references g =
     (let ty = gr_field g ''type'' in
      if ty = ''15'' then [''ui_page'']
      else if ty = ''14'' \<or> ty = ''17'' then [''macro'', ''summary_macro'', ''sp_widget'', ''macroponent'']
      else [])"

definition question_choices :: "host \<Rightarrow> glide_record \<Rightarrow> string set" where
  "question_choices h g =
     (let ty = gr_field g ''type'' in
      if ty = ''3'' \<or> ty = ''5'' then
        (\<lambda>r. row_field r ''sys_id'') `
          set (db h CATALOG_ITEM_VARIABLE_QUESTION_CHOICE [AddQuery ''question'' (sys_id g)])
      else {})"

definition linked_auxiliary :: "host \<Rightarrow> glide_record \<Rightarrow> string set" where
  "linked_auxiliary h g =
     (\<Union>f \<in> set (auxiliary_references g). linked g f) \<union> question_choices h g"

text \<open>
  A reference field is intact when it is empty or the store has the record it names: the
  lookup of that identifier in the referenced table yields a record with that identifier.
\<close>

definition reference_intact :: "host \<Rightarrow> glide_record \<Rightarrow> string \<Rightarrow> bool" where
  "reference_intact h g f \<longleftrightarrow>
     gr_field g f = [] \<or>
     (case db h (refTable h (gr_table g) f) [AddQuery ''sys_id'' (gr_field g f)] of
        [] \<Rightarrow> False
      | r # _ \<Rightarrow> row_field r ''sys_id'' = gr_field g f)"

text \<open>
  For an entry \<open>(sys_id, table)\<close> of the captured-object map: the lookup the write loop
  makes for it, the record that lookup yields (\<open>None\<close> when the entry no longer
  resolves), and the exception \<^verbatim>\<open>saveRecord\<close> raises for it, if it resolves and the
  platform raises one.
\<close>

definition entry_lookup :: "string \<times> string \<Rightarrow> lookup" where
  "entry_lookup e = Get (snd e) ''sys_id'' (fst e)"

definition resolve :: "host \<Rightarrow> string \<times> string \<Rightarrow> glide_record option" where
  "resolve h e =
     (case db h (snd e) [AddQuery ''sys_id'' (fst e)] of [] \<Rightarrow> None | r # _ \<Rightarrow> Some (GR (snd e) r))"

definition save_error :: "host \<Rightarrow> string \<times> string \<Rightarrow> error option" where
  "save_error h e = (case resolve h e of None \<Rightarrow> None | Some g \<Rightarrow> saveRecordError h g)"

text \<open>
  The checks \<open>writeUpdateSet\<close> makes before it switches the update set (lines 95-109):
  the name is not nil, the current scope has a name and a \<open>sys_scope\<close> record, and the
  record of the session's current update set can be read.
\<close>

definition checks_pass :: "host \<Rightarrow> jsval \<Rightarrow> world \<Rightarrow> bool" where
  "checks_pass h updateSetName w \<longleftrightarrow>
     \<not> JSUtil_nil updateSetName \<and>
     \<not> JSUtil_nil (getCurrentScopeName h) \<and>
     db h SYS_SCOPE [AddQuery ''name'' (js_str (getCurrentScopeName h))] \<noteq> [] \<and>
     db h UPDATE_SET [AddQuery ''sys_id'' (currentUpdateSet w)] \<noteq> []"

section \<open>A record store in memory\<close>

text \<open>
  A store given by its tables, for concrete runs: a query returns the rows of the table
  that meet every condition, in table order.  An encoded query is not interpreted.
\<close>

fun cond_holds :: "cond \<Rightarrow> row \<Rightarrow> bool" where
  "cond_holds (AddQuery f v) r = (row_field r f = v)"
| "cond_holds (AddNullQuery f) r = (row_field r f = [])"
| "cond_holds (AddNotNullQuery f) r = (row_field r f \<noteq> [])"
| "cond_holds (AddEncodedQuery q) r = True"

definition table_db :: "(string \<times> row list) list \<Rightarrow> string \<Rightarrow> cond list \<Rightarrow> row list" where
  "table_db tables t cs =
     filter (\<lambda>r. list_all (\<lambda>c. cond_holds c r) cs)
       (case map_of tables t of None \<Rightarrow> [] | Some rs \<Rightarrow> rs)"

definition empty_world :: world where
  "empty_world =
     \<lparr>capturedObjectMap = [], capturedObjectCount = 0, lookups = [], gsLog = [],
      currentUpdateSet = ''us_default'', gusSetCalls = [], savedRecords = [],
      insertedRecords = []\<rparr>"

section \<open>Concrete stores and builders\<close>

definition example_tables :: "(string \<times> row list) list" where
  "example_tables =
     [(''sys_scope'', [[(''sys_id'', ''scope_global''), (''name'', ''global'')]]),
      (''sys_update_set'',
         [[(''sys_id'', ''us_default''), (''name'', ''Default''), (''application'', ''scope_global'')]]),
      (''sys_script'', [[(''sys_id'', ''br1'')], [(''sys_id'', ''br2'')], [(''sys_id'', ''br3'')]]),
      (''sys_archive'',
         [[(''sys_id'', ''A'')], [(''sys_id'', ''B'')], [(''sys_id'', ''C'')],
          [(''sys_id'', ''D'')], [(''sys_id'', ''E'')]]),
      (''sys_archive_related'',
         [[(''sys_id'', ''relAB''), (''archive_map'', ''A''), (''table_archive_rule'', ''B'')],
          [(''sys_id'', ''relBA''), (''archive_map'', ''B''), (''table_archive_rule'', ''A'')],
          [(''sys_id'', ''relCC''), (''archive_map'', ''C''), (''table_archive_rule'', ''C'')],
          [(''sys_id'', ''relDE''), (''archive_map'', ''D''), (''table_archive_rule'', ''E'')]]),
      (''sys_properties'',
         [[(''sys_id'', ''p1''), (''name'', ''x.one'')],
          [(''sys_id'', ''p2''), (''name'', ''x.dup'')],
          [(''sys_id'', ''p3''), (''name'', ''x.dup'')]]),
      (''item_option_new'',
         [[(''sys_id'', ''v15''), (''type'', ''15''), (''ui_page'', ''pg1'')],
          [(''sys_id'', ''v1''), (''type'', ''1''), (''ui_page'', ''pg1'')],
          [(''sys_id'', ''vD''), (''type'', ''15''), (''ui_page'', ''pgX'')]]),
      (''sys_ui_page'', [[(''sys_id'', ''pg1'')]])]"

text \<open>
  The names a script object inherits in the concrete platform: those of the language
  standard.
\<close>

definition object_prototype_names :: "string list" where
  "object_prototype_names =
     [''constructor'', ''toString'', ''toLocaleString'', ''valueOf'', ''hasOwnProperty'',
      ''isPrototypeOf'', ''propertyIsEnumerable'', ''__proto__'']"

definition example_host :: host where
  "example_host =
     \<lparr>db = table_db example_tables,
      refTable = (\<lambda>t f. if f = ''ui_page'' then ''sys_ui_page'' else []),
      gsCurrentScopeName = JSString ''rhino.global'',
      saveRecordError = (\<lambda>g. None),
      setEffective = (\<lambda>u. True),
      insertSysId = ''us_new'',
      inherited = (\<lambda>k. k \<in> set object_prototype_names)\<rparr>"

text \<open>The same platform, except that saving the record \<open>br1\<close> raises an exception.\<close>

definition failing_host :: host where
  "failing_host =
     example_host\<lparr>saveRecordError :=
       (\<lambda>g. if sys_id g = ''br1'' then Some (PlatformError ''saveRecord failed'') else None)\<rparr>"

definition captured_two :: world where
  "captured_two =
     empty_world\<lparr>capturedObjectMap := [(''br1'', ''sys_script''), (''br2'', ''sys_script'')],
                 capturedObjectCount := 2\<rparr>"

text \<open>Three captured entries, the second of which is no longer in the store.\<close>

definition captured_three :: world where
  "captured_three =
     empty_world\<lparr>capturedObjectMap :=
                   [(''br1'', ''sys_script''), (''gone'', ''sys_script''), (''br3'', ''sys_script'')],
                 capturedObjectCount := 3\<rparr>"

section \<open>Running the model\<close>

text \<open>Rules that execute one statement of a sequence.\<close>

lemma bind_ret [simp]: "bind (ret x) f w = f x w"
  by (simp add: bind_def ret_def)

lemma bind_throw [simp]: "bind (throw e) f w = (Throw e, w)"
  by (simp add: bind_def throw_def)

lemma bind_assoc [simp]: "bind (bind m f) g = bind m (\<lambda>x. bind (f x) g)"
  by (rule ext) (simp add: bind_def split: prod.split outcome.split)

lemma ret_apply [simp]: "ret x w = (Return x, w)"
  by (simp add: ret_def)

lemma throw_apply [simp]: "throw e w = (Throw e, w)"
  by (simp add: throw_def)

lemma bind_gs_log [simp]: "bind (gs_log l) f w = f () (w\<lparr>gsLog := gsLog w @ [l]\<rparr>)"
  by (simp add: bind_def gs_log_def)

lemma bind_gr_query [simp]:
  "bind (gr_query h t cs) f w = f (db h t cs) (w\<lparr>lookups := lookups w @ [Query t cs]\<rparr>)"
  by (simp add: bind_def gr_query_def)

lemma bind_gr_get [simp]:
  "bind (gr_get h t fld v) f w =
     f (case db h t [AddQuery fld v] of [] \<Rightarrow> None | r # _ \<Rightarrow> Some (GR t r))
       (w\<lparr>lookups := lookups w @ [Get t fld v]\<rparr>)"
  by (simp add: bind_def gr_get_def)

lemma bind_gus_get [simp]: "bind gus_get f w = f (currentUpdateSet w) w"
  by (simp add: bind_def gus_get_def)

lemma bind_gus_set [simp]:
  "bind (gus_set h u) f w =
     f () (w\<lparr>gusSetCalls := gusSetCalls w @ [u],
             currentUpdateSet := (if setEffective h u then u else currentUpdateSet w)\<rparr>)"
  by (simp add: bind_def gus_set_def)

lemma bind_gr_insert [simp]:
  "bind (gr_insert h t vals) f w =
     f (GR t ((''sys_id'', insertSysId h) # vals))
       (w\<lparr>insertedRecords := insertedRecords w @ [GR t ((''sys_id'', insertSysId h) # vals)]\<rparr>)"
  by (simp add: bind_def gr_insert_def Let_def)

lemma bind_flushObjectCache [simp]:
  "bind flushObjectCache f w = f () (w\<lparr>capturedObjectMap := [], capturedObjectCount := 0\<rparr>)"
  by (simp add: bind_def flushObjectCache_def)

lemma writeEntry_apply:
  "writeEntry h e w =
     (case resolve h e of
        None \<Rightarrow> (Return (), w\<lparr>lookups := lookups w @ [entry_lookup e]\<rparr>)
      | Some g \<Rightarrow>
          (case saveRecordError h g of
             Some x \<Rightarrow> (Throw x, w\<lparr>lookups := lookups w @ [entry_lookup e]\<rparr>)
           | None \<Rightarrow> (Return (), w\<lparr>lookups := lookups w @ [entry_lookup e],
                                   savedRecords := savedRecords w @ [g]\<rparr>)))"
  by (cases e) (simp add: writeEntry_def resolve_def entry_lookup_def saveRecord_def
      split: list.split option.split)

lemma for_each_Cons_Return:
  "body e w = (Return u, w1) \<Longrightarrow> for_each (e # es) body w = for_each es body w1"
  by (simp add: bind_def)

lemma for_each_Cons_Throw:
  "body e w = (Throw x, w1) \<Longrightarrow> for_each (e # es) body w = (Throw x, w1)"
  by (simp add: bind_def)

lemma writeEntry_ok:
  assumes "save_error h e = None"
  shows "writeEntry h e w =
           (Return (), w\<lparr>lookups := lookups w @ [entry_lookup e],
                         savedRecords := savedRecords w @ List.map_filter (resolve h) [e]\<rparr>)"
proof (cases "resolve h e")
  case None
  then show ?thesis by (simp add: writeEntry_apply)
next
  case (Some g)
  with assms have "saveRecordError h g = None" by (simp add: save_error_def)
  with Some show ?thesis by (simp add: writeEntry_apply)
qed

lemma writeEntry_fails:
  assumes "save_error h e = Some x"
  shows "writeEntry h e w = (Throw x, w\<lparr>lookups := lookups w @ [entry_lookup e]\<rparr>)"
proof (cases "resolve h e")
  case None
  with assms show ?thesis by (simp add: save_error_def)
next
  case (Some g)
  with assms have "saveRecordError h g = Some x" by (simp add: save_error_def)
  with Some show ?thesis by (simp add: writeEntry_apply)
qed

lemma write_loop_all:
  assumes "\<forall>e \<in> set es. save_error h e = None"
  shows "for_each es (writeEntry h) w =
           (Return (), w\<lparr>lookups := lookups w @ map entry_lookup es,
                         savedRecords := savedRecords w @ List.map_filter (resolve h) es\<rparr>)"
  using assms
proof (induction es arbitrary: w)
  case Nil
  show ?case by simp
next
  case (Cons e es)
  then have e: "save_error h e = None" and es: "\<forall>e \<in> set es. save_error h e = None"
    by simp_all
  have "for_each (e # es) (writeEntry h) w =
          for_each es (writeEntry h)
            (w\<lparr>lookups := lookups w @ [entry_lookup e],
               savedRecords := savedRecords w @ List.map_filter (resolve h) [e]\<rparr>)"
    using writeEntry_ok [OF e] by (rule for_each_Cons_Return)
  then show ?case
    by (simp add: Cons.IH [OF es] split: option.split)
qed

lemma write_loop_stops:
  assumes "\<forall>e \<in> set pre. save_error h e = None" and "save_error h e0 = Some x"
  shows "for_each (pre @ e0 # post) (writeEntry h) w =
           (Throw x, w\<lparr>lookups := lookups w @ map entry_lookup (pre @ [e0]),
                        savedRecords := savedRecords w @ List.map_filter (resolve h) pre\<rparr>)"
  using assms
proof (induction pre arbitrary: w)
  case Nil
  have "for_each (e0 # post) (writeEntry h) w = (Throw x, w\<lparr>lookups := lookups w @ [entry_lookup e0]\<rparr>)"
    using writeEntry_fails [OF Nil(2)] by (rule for_each_Cons_Throw)
  then show ?case by simp
next
  case (Cons e pre)
  then have e: "save_error h e = None" and pre: "\<forall>e \<in> set pre. save_error h e = None"
    by simp_all
  have "for_each (e # pre @ e0 # post) (writeEntry h) w =
          for_each (pre @ e0 # post) (writeEntry h)
            (w\<lparr>lookups := lookups w @ [entry_lookup e],
               savedRecords := savedRecords w @ List.map_filter (resolve h) [e]\<rparr>)"
    using writeEntry_ok [OF e] by (rule for_each_Cons_Return)
  then show ?case
    by (simp add: Cons.IH [OF pre Cons.prems(2)] split: option.split)
qed

lemma writeEntry_cases:
  obtains (skip) "writeEntry h e w = (Return (), w\<lparr>lookups := lookups w @ [entry_lookup e]\<rparr>)"
  | (fail) x where "writeEntry h e w = (Throw x, w\<lparr>lookups := lookups w @ [entry_lookup e]\<rparr>)"
  | (save) g where "writeEntry h e w =
        (Return (), w\<lparr>lookups := lookups w @ [entry_lookup e], savedRecords := savedRecords w @ [g]\<rparr>)"
proof (cases "resolve h e")
  case None
  then show ?thesis using skip by (simp add: writeEntry_apply)
next
  case (Some g)
  then show ?thesis using fail save by (cases "saveRecordError h g") (simp_all add: writeEntry_apply)
qed

lemma write_loop_frame:
  "capturedObjectMap (snd (for_each es (writeEntry h) w)) = capturedObjectMap w \<and>
   capturedObjectCount (snd (for_each es (writeEntry h) w)) = capturedObjectCount w \<and>
   gsLog (snd (for_each es (writeEntry h) w)) = gsLog w \<and>
   currentUpdateSet (snd (for_each es (writeEntry h) w)) = currentUpdateSet w \<and>
   gusSetCalls (snd (for_each es (writeEntry h) w)) = gusSetCalls w \<and>
   insertedRecords (snd (for_each es (writeEntry h) w)) = insertedRecords w"
proof (induction es arbitrary: w)
  case Nil
  show ?case by simp
next
  case (Cons e es)
  show ?case
  proof (cases h e w rule: writeEntry_cases)
    case skip
    then have "for_each (e # es) (writeEntry h) w
        = for_each es (writeEntry h) (w\<lparr>lookups := lookups w @ [entry_lookup e]\<rparr>)"
      by (rule for_each_Cons_Return)
    then show ?thesis by (simp add: Cons.IH)
  next
    case (fail x)
    then have "for_each (e # es) (writeEntry h) w
        = (Throw x, w\<lparr>lookups := lookups w @ [entry_lookup e]\<rparr>)"
      by (rule for_each_Cons_Throw)
    then show ?thesis by simp
  next
    case (save g)
    then have "for_each (e # es) (writeEntry h) w
        = for_each es (writeEntry h)
            (w\<lparr>lookups := lookups w @ [entry_lookup e], savedRecords := savedRecords w @ [g]\<rparr>)"
      by (rule for_each_Cons_Return)
    then show ?thesis by (simp add: Cons.IH)
  qed
qed

lemma writeLoop_frame [simp]:
  "capturedObjectMap (snd (writeLoop h w)) = capturedObjectMap w"
  "capturedObjectCount (snd (writeLoop h w)) = capturedObjectCount w"
  "gsLog (snd (writeLoop h w)) = gsLog w"
  "currentUpdateSet (snd (writeLoop h w)) = currentUpdateSet w"
  "gusSetCalls (snd (writeLoop h w)) = gusSetCalls w"
  "insertedRecords (snd (writeLoop h w)) = insertedRecords w"
  using write_loop_frame [of "capturedObjectMap w" h w] by (simp_all add: writeLoop_def)

lemma bind_writeLoop [simp]:
  "bind (writeLoop h) f w =
     (case fst (writeLoop h w) of
        Throw e \<Rightarrow> (Throw e, snd (writeLoop h w))
      | Return u \<Rightarrow> f u (snd (writeLoop h w)))"
  by (simp add: bind_def split: prod.split outcome.split)

lemma writeCapturedObjects_apply:
  "writeCapturedObjects h usGR w =
     (let w1 = w\<lparr>gsLog := gsLog w @ [Log ''writeUpdateSet: Moving to Update Set'' [gr_field usGR ''name'']],
                  gusSetCalls := gusSetCalls w @ [sys_id usGR],
                  currentUpdateSet := (if setEffective h (sys_id usGR) then sys_id usGR else currentUpdateSet w)\<rparr>;
          w2 = w1\<lparr>gsLog := gsLog w1 @ [Log ''writeUpdateSet: Writing captured objects to update set'' []]\<rparr>;
          w3 = snd (writeLoop h w2)
      in case fst (writeLoop h w2) of
           Return u \<Rightarrow>
             (Return (), w3\<lparr>gsLog := gsLog w3 @
                [Log ''writeUpdateSet: Finished writing captured objects to update set'' []]\<rparr>)
         | Throw ex \<Rightarrow>
             (Return (), w3\<lparr>gsLog := gsLog w3 @
                [LogCaught ''writeUpdateSet: ERROR while writing update set!:'' ex]\<rparr>))"
  by (simp add: writeCapturedObjects_def try_catch_def Let_def gs_log_def split: outcome.split)

lemma writeCapturedObjects_frame:
  "fst (writeCapturedObjects h usGR w) = Return ()"
  "gusSetCalls (snd (writeCapturedObjects h usGR w)) = gusSetCalls w @ [sys_id usGR]"
  "capturedObjectMap (snd (writeCapturedObjects h usGR w)) = capturedObjectMap w"
  "capturedObjectCount (snd (writeCapturedObjects h usGR w)) = capturedObjectCount w"
  by (simp_all add: writeCapturedObjects_apply Let_def split: outcome.split)

lemma restoreUpdateSet_apply:
  "restoreUpdateSet h cur currGR w =
     (let w1 = w\<lparr>capturedObjectMap := [], capturedObjectCount := 0,
                  gusSetCalls := gusSetCalls w @ [cur],
                  currentUpdateSet := (if setEffective h cur then cur else currentUpdateSet w)\<rparr>
      in (Return (),
          w1\<lparr>gsLog := gsLog w1 @
            [if currentUpdateSet w1 \<noteq> cur
             then Log ''writeUpdateSet: WARNING: Failed to move back to originally selected update set.  MAKE SURE TO DO SO MANUALLY'' []
             else Log ''writeUpdateSet: Moved back to original update set successfully''
                    [gr_field currGR ''name'']]\<rparr>))"
  by (simp add: restoreUpdateSet_def Let_def gs_log_def)

lemma commit_block:
  fixes h usGR cur currGR w
  defines "res \<equiv> try_finally (writeCapturedObjects h usGR) (restoreUpdateSet h cur currGR) w"
  shows "fst res = Return ()"
    and "capturedObjectMap (snd res) = []"
    and "capturedObjectCount (snd res) = 0"
    and "gusSetCalls (snd res) = gusSetCalls w @ [sys_id usGR, cur]"
    and "setEffective h cur \<Longrightarrow> currentUpdateSet (snd res) = cur"
  unfolding res_def
  by (cases "writeCapturedObjects h usGR w";
      use writeCapturedObjects_frame [of h usGR w] in
        \<open>simp add: try_finally_def restoreUpdateSet_apply Let_def\<close>)+

lemma bind_commit_block [simp]:
  "bind (try_finally (writeCapturedObjects h usGR) (restoreUpdateSet h cur currGR)) f w
     = f () (snd (try_finally (writeCapturedObjects h usGR) (restoreUpdateSet h cur currGR) w))"
  using commit_block(1) [of h usGR cur currGR w]
  by (cases "try_finally (writeCapturedObjects h usGR) (restoreUpdateSet h cur currGR) w")
     (simp add: bind_def)

lemma writeUpdateSet_rejected:
  assumes "\<not> checks_pass h name w"
  shows "(\<exists>e. fst (writeUpdateSet h name w) = Throw e)
       \<and> capturedObjectMap (snd (writeUpdateSet h name w)) = capturedObjectMap w
       \<and> capturedObjectCount (snd (writeUpdateSet h name w)) = capturedObjectCount w
       \<and> gusSetCalls (snd (writeUpdateSet h name w)) = gusSetCalls w
       \<and> currentUpdateSet (snd (writeUpdateSet h name w)) = currentUpdateSet w"
  using assms
  by (auto simp: checks_pass_def writeUpdateSet_def getCurrentScopeGR_def Let_def
      split: list.splits)

lemma writeUpdateSet_entered:
  assumes "checks_pass h name w"
  shows "fst (writeUpdateSet h name w) = Return JSUndefined
       \<and> capturedObjectMap (snd (writeUpdateSet h name w)) = []
       \<and> capturedObjectCount (snd (writeUpdateSet h name w)) = 0
       \<and> (\<exists>target. gusSetCalls (snd (writeUpdateSet h name w)) = gusSetCalls w @ [target, currentUpdateSet w])
       \<and> (setEffective h (currentUpdateSet w) \<longrightarrow>
            currentUpdateSet (snd (writeUpdateSet h name w)) = currentUpdateSet w)"
proof -
  from assms obtain s ss c cs where
    n: "\<not> JSUtil_nil name" and sn: "\<not> JSUtil_nil (getCurrentScopeName h)"
    and s: "db h SYS_SCOPE [AddQuery ''name'' (js_str (getCurrentScopeName h))] = s # ss"
    and c: "db h UPDATE_SET [AddQuery ''sys_id'' (currentUpdateSet w)] = c # cs"
    by (auto simp: checks_pass_def neq_Nil_conv)
  show ?thesis
  proof (cases "db h UPDATE_SET [AddQuery ''application'' (sys_id (GR SYS_SCOPE s)),
                                 AddQuery ''name'' (js_str name)]")
    case Nil
    with n sn s c show ?thesis
      by (simp add: writeUpdateSet_def getCurrentScopeGR_def Let_def commit_block)
  next
    case (Cons r rs)
    with n sn s c show ?thesis
      by (simp add: writeUpdateSet_def getCurrentScopeGR_def Let_def commit_block)
  qed
qed


subsection \<open>The captured-object map\<close>

lemma obj_get_Nil [simp]:
  "obj_get h [] k = (if inherited h k then PropInherited else PropUndefined)"
  by (simp add: obj_get_def)

lemma obj_get_Cons [simp]:
  "obj_get h ((k', v) # m) k = (if k' = k then PropString v else obj_get h m k)"
  by (simp add: obj_get_def)

lemma obj_get_obj_set_same: "obj_get h (obj_set m k v) k = PropString v"
  by (induction m) auto

lemma map_of_obj_set: "map_of (obj_set m k v) = (map_of m)(k \<mapsto> v)"
  by (induction m) auto

lemma map_keys_Nil [simp]: "map_keys [] = {}"
  by (simp add: map_keys_def)

lemma map_keys_Cons [simp]: "map_keys ((k, v) # m) = insert k (map_keys m)"
  by (simp add: map_keys_def)

lemma map_keys_obj_set: "map_keys (obj_set m k v) = insert k (map_keys m)"
proof (induction m)
  case Nil
  show ?case by simp
next
  case (Cons p m)
  obtain a b where p: "p = (a, b)" by (cases p)
  show ?case
  proof (cases "a = k")
    case True
    with p show ?thesis by simp
  next
    case False
    with p Cons show ?thesis by (simp add: insert_commute)
  qed
qed

lemma obj_set_absent: "k \<notin> map_keys m \<Longrightarrow> obj_set m k v = m @ [(k, v)]"
  by (induction m) auto

text \<open>
  A key reads truthy only if it is a key of the map or an inherited name; when no stored
  table name is empty, every key of the map reads truthy.
\<close>

lemma truthy_in_keys: "truthy (obj_get h m k) \<Longrightarrow> k \<in> map_keys m \<or> inherited h k"
  by (induction m) (auto split: if_splits)

lemma truthy_iff_key:
  "\<forall>kv \<in> set m. snd kv \<noteq> [] \<Longrightarrow> truthy (obj_get h m k) \<longleftrightarrow> k \<in> map_keys m \<or> inherited h k"
  by (induction m) (auto split: if_splits)

lemma recordObject_never_throws: "fst (recordObject h gr w) = Return ()"
  by (simp add: recordObject_def Let_def split: option.split)

lemma recordObject_known:
  "truthy (obj_get h (capturedObjectMap w) (sys_id g)) \<Longrightarrow> recordObject h (Some g) w = (Return (), w)"
  by (simp add: recordObject_def Let_def)

lemma recordObject_new:
  "\<not> truthy (obj_get h (capturedObjectMap w) (sys_id g)) \<Longrightarrow>
   recordObject h (Some g) w =
     (Return (),
      w\<lparr>capturedObjectMap := obj_set (capturedObjectMap w) (sys_id g) (getTableName g),
        capturedObjectCount := capturedObjectCount w + 1,
        gsLog := gsLog w @ [Log ''Captured object with sys_id'' [getTableName g, sys_id g]]\<rparr>)"
  by (simp add: recordObject_def Let_def)

lemma bind_recordObject [simp]: "bind (recordObject h gr) f w = f () (snd (recordObject h gr w))"
  using recordObject_never_throws [of h gr w]
  by (cases "recordObject h gr w") (simp add: bind_def)

lemma case_recordObject [simp]:
  "(case recordObject h gr w of (Throw e, w1) \<Rightarrow> f e w1 | (Return u, w1) \<Rightarrow> g u w1)
     = g () (snd (recordObject h gr w))"
  using recordObject_never_throws [of h gr w]
  by (cases "recordObject h gr w") simp

text \<open>
  An identifier that is not an inherited name is a key of the map once it has been
  recorded; an inherited name is never stored.
\<close>

lemma map_keys_recordObject [simp]:
  "\<not> inherited h (sys_id g) \<Longrightarrow>
   map_keys (capturedObjectMap (snd (recordObject h (Some g) w)))
     = insert (sys_id g) (map_keys (capturedObjectMap w))"
  by (auto simp: recordObject_def Let_def map_keys_obj_set dest: truthy_in_keys)

lemma inherited_name_never_recorded:
  assumes "inherited h (sys_id g)" and "sys_id g \<notin> map_keys (capturedObjectMap w)"
  shows "recordObject h (Some g) w = (Return (), w)"
proof -
  from assms(2) have "map_of (capturedObjectMap w) (sys_id g) = None"
    by (simp add: map_of_eq_None_iff map_keys_def)
  with assms(1) show ?thesis
    by (simp add: recordObject_def Let_def obj_get_def)
qed

lemma sys_id_GR [simp]: "sys_id (GR t r) = row_field r ''sys_id''"
  by (simp add: sys_id_def gr_field_def GR_def)

lemma gr_field_GR [simp]: "gr_field (GR t r) f = row_field r f"
  by (simp add: gr_field_def GR_def)

lemma gr_table_GR [simp]: "gr_table (GR t r) = t"
  by (simp add: GR_def)

lemma getTableName_GR [simp]: "getTableName (GR t r) = t"
  by (simp add: getTableName_def GR_def)

lemma row_field_Nil [simp]: "row_field [] f = []"
  by (simp add: row_field_def)

lemma row_field_Cons [simp]: "row_field ((f', v) # r) f = (if f' = f then v else row_field r f)"
  by (auto simp: row_field_def)

lemma bind_getRefRecord [simp]:
  "bind (getRefRecord h g fld) f w =
     f (refRecordValue h g fld)
       (w\<lparr>lookups := lookups w @ [GetRefRecord (refTable h (gr_table g) fld) fld (gr_field g fld)]\<rparr>)"
  by (simp add: bind_def getRefRecord_def)

text \<open>The record an intact, non-empty reference yields bears the identifier the field holds.\<close>

lemma sys_id_refRecordValue:
  "reference_intact h g f \<Longrightarrow> gr_field g f \<noteq> [] \<Longrightarrow> sys_id (refRecordValue h g f) = gr_field g f"
  by (auto simp: reference_intact_def refRecordValue_def Let_def split: list.splits)

text \<open>A statement that returns hands the state it leaves to the next one.\<close>

lemma bind_returns: "fst (p w) = Return u \<Longrightarrow> bind p k w = k u (snd (p w))"
  by (cases "p w") (simp add: bind_def)

text \<open>
  The statement that records the record a reference field names, if the field is not
  empty, with or without a warning in the log: for an intact reference whose identifier
  is not an inherited name it returns, and it adds that identifier to the keys.
\<close>

lemma record_reference:
  assumes "reference_intact h g f" and "\<forall>k \<in> linked g f. \<not> inherited h k"
  shows "fst ((if gr_field g f \<noteq> []
               then bind (getRefRecord h g f) (\<lambda>r. recordObject h (Some r))
               else ret ()) w) = Return ()"
    and "map_keys (capturedObjectMap (snd ((if gr_field g f \<noteq> []
               then bind (getRefRecord h g f) (\<lambda>r. recordObject h (Some r))
               else ret ()) w))) = map_keys (capturedObjectMap w) \<union> linked g f"
    and "fst ((if gr_field g f \<noteq> []
               then seq [gs_log l, bind (getRefRecord h g f) (\<lambda>r. recordObject h (Some r))]
               else ret ()) w) = Return ()"
    and "map_keys (capturedObjectMap (snd ((if gr_field g f \<noteq> []
               then seq [gs_log l, bind (getRefRecord h g f) (\<lambda>r. recordObject h (Some r))]
               else ret ()) w))) = map_keys (capturedObjectMap w) \<union> linked g f"
proof -
  have same: "sys_id (refRecordValue h g f) = gr_field g f" if "gr_field g f \<noteq> []"
    using that assms(1) by (rule sys_id_refRecordValue [rotated])
  have clean: "\<not> inherited h (gr_field g f)" if "gr_field g f \<noteq> []"
    using that assms(2) by (simp add: linked_def)
  show
    "fst ((if gr_field g f \<noteq> []
               then bind (getRefRecord h g f) (\<lambda>r. recordObject h (Some r))
               else ret ()) w) = Return ()"
    "map_keys (capturedObjectMap (snd ((if gr_field g f \<noteq> []
               then bind (getRefRecord h g f) (\<lambda>r. recordObject h (Some r))
               else ret ()) w))) = map_keys (capturedObjectMap w) \<union> linked g f"
    "fst ((if gr_field g f \<noteq> []
               then seq [gs_log l, bind (getRefRecord h g f) (\<lambda>r. recordObject h (Some r))]
               else ret ()) w) = Return ()"
    "map_keys (capturedObjectMap (snd ((if gr_field g f \<noteq> []
               then seq [gs_log l, bind (getRefRecord h g f) (\<lambda>r. recordObject h (Some r))]
               else ret ()) w))) = map_keys (capturedObjectMap w) \<union> linked g f"
    by (simp_all add: linked_def recordObject_never_throws same clean)
qed

text \<open>Recording every row of a query result, one after the other.\<close>

lemma bind_for_each_record [simp]:
  "bind (for_each rows (\<lambda>r. recordObject h (Some (GR t r)))) f w
     = f () (foldl (\<lambda>w r. snd (recordObject h (Some (GR t r)) w)) w rows)"
  by (induction rows arbitrary: w) simp_all

lemma bind_captureObjectsFromGRQuery [simp]:
  "bind (captureObjectsFromGRQuery h (Some (t, cs))) f w
     = f () (foldl (\<lambda>w r. snd (recordObject h (Some (GR t r)) w))
               (w\<lparr>lookups := lookups w @ [Query t cs]\<rparr>) (db h t cs))"
  by (simp add: captureObjectsFromGRQuery_def)

lemma map_keys_record_rows:
  "\<forall>r \<in> set rows. \<not> inherited h (row_field r ''sys_id'') \<Longrightarrow>
   map_keys (capturedObjectMap (foldl (\<lambda>w r. snd (recordObject h (Some (GR t r)) w)) w rows))
     = map_keys (capturedObjectMap w) \<union> (\<lambda>r. row_field r ''sys_id'') ` set rows"
  by (induction rows arbitrary: w) auto

subsection \<open>The invariant of the deduplication core\<close>

lemma counted_apply_op:
  assumes "distinct (map fst (capturedObjectMap w))"
    and "\<forall>kv \<in> set (capturedObjectMap w). snd kv \<noteq> []"
    and "capturedObjectCount w = length (capturedObjectMap w)"
    and "op_has_table x"
  shows "distinct (map fst (capturedObjectMap (apply_op h x w)))
       \<and> (\<forall>kv \<in> set (capturedObjectMap (apply_op h x w)). snd kv \<noteq> [])
       \<and> capturedObjectCount (apply_op h x w) = length (capturedObjectMap (apply_op h x w))"
proof (cases x)
  case (RecordObject gr)
  show ?thesis
  proof (cases gr)
    case None
    with RecordObject assms show ?thesis by (simp add: recordObject_def)
  next
    case (Some g)
    with RecordObject assms(4) have tn: "getTableName g \<noteq> []" by simp
    show ?thesis
    proof (cases "truthy (obj_get h (capturedObjectMap w) (sys_id g))")
      case True
      with RecordObject Some assms show ?thesis by (simp add: recordObject_known)
    next
      case False
      with assms(2) have "sys_id g \<notin> map_keys (capturedObjectMap w)"
        by (simp add: truthy_iff_key)
      then have "obj_set (capturedObjectMap w) (sys_id g) (getTableName g)
          = capturedObjectMap w @ [(sys_id g, getTableName g)]"
        and "sys_id g \<notin> fst ` set (capturedObjectMap w)"
        by (simp_all add: obj_set_absent map_keys_def)
      with RecordObject Some assms False tn show ?thesis
        by (simp add: recordObject_new)
    qed
  qed
next
  case FlushObjectCache
  then show ?thesis by (simp add: flushObjectCache_def)
qed

lemma counted_run_ops:
  assumes "\<forall>x \<in> set ops. op_has_table x"
    and "distinct (map fst (capturedObjectMap w))"
    and "\<forall>kv \<in> set (capturedObjectMap w). snd kv \<noteq> []"
    and "capturedObjectCount w = length (capturedObjectMap w)"
  shows "distinct (map fst (capturedObjectMap (run_ops h ops w)))
       \<and> capturedObjectCount (run_ops h ops w) = length (capturedObjectMap (run_ops h ops w))"
  using assms
proof (induction ops arbitrary: w)
  case Nil
  then show ?case by simp
next
  case (Cons x xs)
  from Cons.prems have "op_has_table x" by simp
  from counted_apply_op [OF Cons.prems(2) Cons.prems(3) Cons.prems(4) this, of h] Cons.prems(1)
  show ?case by (simp add: Cons.IH)
qed

subsection \<open>The concrete store\<close>

lemma inherited_example [simp]:
  "inherited example_host k \<longleftrightarrow> k \<in> set object_prototype_names"
  "inherited failing_host k \<longleftrightarrow> k \<in> set object_prototype_names"
  by (simp_all add: example_host_def failing_host_def)

lemma refTable_example [simp]:
  "refTable example_host t f = (if f = ''ui_page'' then ''sys_ui_page'' else [])"
  by (simp add: example_host_def)

lemma getCurrentScopeName_example [simp]:
  "getCurrentScopeName example_host = JSString ''global''"
  "getCurrentScopeName failing_host = JSString ''global''"
  by (simp_all add: getCurrentScopeName_def example_host_def failing_host_def)

lemma setEffective_example [simp]:
  "setEffective example_host u" "setEffective failing_host u"
  by (simp_all add: example_host_def failing_host_def)

lemma db_failing_host [simp]: "db failing_host = db example_host"
  by (simp add: failing_host_def)

lemma example_rows:
  "db example_host ''sys_scope'' [AddQuery ''name'' ''global'']
     = [[(''sys_id'', ''scope_global''), (''name'', ''global'')]]"
  "db example_host ''sys_update_set'' [AddQuery ''sys_id'' ''us_default'']
     = [[(''sys_id'', ''us_default''), (''name'', ''Default''), (''application'', ''scope_global'')]]"
  "db example_host ''sys_update_set'' [AddQuery ''sys_id'' ''us_gone''] = []"
  "db example_host ''sys_update_set'' [AddQuery ''application'' ''scope_global'', AddQuery ''name'' ''US''] = []"
  "db example_host ''sys_script'' [AddQuery ''sys_id'' ''br1''] = [[(''sys_id'', ''br1'')]]"
  "db example_host ''sys_script'' [AddQuery ''sys_id'' ''br2''] = [[(''sys_id'', ''br2'')]]"
  "db example_host ''sys_script'' [AddQuery ''sys_id'' ''br3''] = [[(''sys_id'', ''br3'')]]"
  "db example_host ''sys_script'' [AddQuery ''sys_id'' ''gone''] = []"
  "db example_host ''sys_archive'' [AddQuery ''sys_id'' ''A''] = [[(''sys_id'', ''A'')]]"
  "db example_host ''sys_archive'' [AddQuery ''sys_id'' ''B''] = [[(''sys_id'', ''B'')]]"
  "db example_host ''sys_archive_related'' [AddQuery ''archive_map'' ''A'']
     = [[(''sys_id'', ''relAB''), (''archive_map'', ''A''), (''table_archive_rule'', ''B'')]]"
  "db example_host ''sys_archive_related'' [AddQuery ''archive_map'' ''B'']
     = [[(''sys_id'', ''relBA''), (''archive_map'', ''B''), (''table_archive_rule'', ''A'')]]"
  "db example_host ''sys_archive'' [AddQuery ''sys_id'' ''C''] = [[(''sys_id'', ''C'')]]"
  "db example_host ''sys_archive'' [AddQuery ''sys_id'' ''D''] = [[(''sys_id'', ''D'')]]"
  "db example_host ''sys_archive'' [AddQuery ''sys_id'' ''E''] = [[(''sys_id'', ''E'')]]"
  "db example_host ''sys_archive_related'' [AddQuery ''archive_map'' ''D'']
     = [[(''sys_id'', ''relDE''), (''archive_map'', ''D''), (''table_archive_rule'', ''E'')]]"
  "db example_host ''sys_archive_related'' [AddQuery ''archive_map'' ''E''] = []"
  "db example_host ''sys_archive_related'' [AddQuery ''archive_map'' ''C'']
     = [[(''sys_id'', ''relCC''), (''archive_map'', ''C''), (''table_archive_rule'', ''C'')]]"
  "db example_host ''sys_properties'' [AddQuery ''name'' ''x.one'']
     = [[(''sys_id'', ''p1''), (''name'', ''x.one'')]]"
  "db example_host ''sys_properties'' [AddQuery ''name'' ''x.none''] = []"
  "db example_host ''sys_properties'' [AddQuery ''name'' ''x.dup'']
     = [[(''sys_id'', ''p2''), (''name'', ''x.dup'')], [(''sys_id'', ''p3''), (''name'', ''x.dup'')]]"
  "db example_host ''item_option_new'' [AddQuery ''sys_id'' ''v15'']
     = [[(''sys_id'', ''v15''), (''type'', ''15''), (''ui_page'', ''pg1'')]]"
  "db example_host ''item_option_new'' [AddQuery ''sys_id'' ''v1'']
     = [[(''sys_id'', ''v1''), (''type'', ''1''), (''ui_page'', ''pg1'')]]"
  "db example_host ''item_option_new'' [AddQuery ''sys_id'' ''vD'']
     = [[(''sys_id'', ''vD''), (''type'', ''15''), (''ui_page'', ''pgX'')]]"
  "db example_host ''sys_ui_page'' [AddQuery ''sys_id'' ''pg1''] = [[(''sys_id'', ''pg1'')]]"
  "db example_host ''sys_ui_page'' [AddQuery ''sys_id'' ''pgX''] = []"
  by (simp_all add: example_host_def table_db_def example_tables_def row_field_def)

lemma cycle_never_returns:
  "captureArchivalRule n example_host (JSString ''A'') w = None \<and>
   captureArchivalRule n example_host (JSString ''B'') w = None"
proof (induction n arbitrary: w)
  case 0
  show ?case
    by (simp add: gr_get_def gr_query_def example_rows row_field_def)
next
  case (Suc n)
  have "captureArchivalRule (Suc n) example_host (JSString ''A'') w = None"
    by (subst captureArchivalRule.simps)
       (simp add: gr_get_def gr_query_def example_rows row_field_def Suc.IH
             del: captureArchivalRule.simps)
  moreover have "captureArchivalRule (Suc n) example_host (JSString ''B'') w = None"
    by (subst captureArchivalRule.simps)
       (simp add: gr_get_def gr_query_def example_rows row_field_def Suc.IH
             del: captureArchivalRule.simps)
  ultimately show ?case by simp
qed

lemma bind_writeEntry:
  "bind (writeEntry h e) f w =
     (case resolve h e of
        None \<Rightarrow> f () (w\<lparr>lookups := lookups w @ [entry_lookup e]\<rparr>)
      | Some g \<Rightarrow>
          (case saveRecordError h g of
             Some x \<Rightarrow> (Throw x, w\<lparr>lookups := lookups w @ [entry_lookup e]\<rparr>)
           | None \<Rightarrow> f () (w\<lparr>lookups := lookups w @ [entry_lookup e],
                              savedRecords := savedRecords w @ [g]\<rparr>)))"
  by (simp add: bind_def writeEntry_apply split: option.split)

lemma example_resolve:
  "resolve example_host (''br1'', ''sys_script'') = Some (GR ''sys_script'' [(''sys_id'', ''br1'')])"
  "resolve example_host (''br2'', ''sys_script'') = Some (GR ''sys_script'' [(''sys_id'', ''br2'')])"
  "resolve example_host (''br3'', ''sys_script'') = Some (GR ''sys_script'' [(''sys_id'', ''br3'')])"
  "resolve example_host (''gone'', ''sys_script'') = None"
  "resolve failing_host e = resolve example_host e"
  by (simp_all add: resolve_def example_rows)

lemma example_saveRecordError:
  "saveRecordError example_host g = None"
  "saveRecordError failing_host (GR ''sys_script'' [(''sys_id'', ''br1'')])
     = Some (PlatformError ''saveRecord failed'')"
  "saveRecordError failing_host (GR ''sys_script'' [(''sys_id'', ''br2'')]) = None"
  by (simp_all add: example_host_def failing_host_def)

lemma example_checks:
  "checks_pass example_host (JSString ''US'') captured_two"
  "checks_pass example_host (JSString ''US'') captured_three"
  "checks_pass example_host (JSString ''US'') empty_world"
  "checks_pass failing_host (JSString ''US'') captured_two"
  "\<not> checks_pass example_host JSNull captured_two"
  by (simp_all add: checks_pass_def example_rows captured_two_def captured_three_def empty_world_def)

text \<open>
  Fuel is used by nested calls only.  The guard of \<open>captureArchivalRule\<close> does cover
  a rule that refers to itself: rule \<open>C\<close> of the concrete store is captured with its
  related record without a nested call.  Rule \<open>D\<close>, whose related record names rule
  \<open>E\<close>, needs one nested call and is captured with \<open>E\<close> as soon as there is fuel
  for it.
\<close>

lemma self_reference_returns:
  "\<exists>w. captureArchivalRule 0 example_host (JSString ''C'') empty_world = Some (Return (), w)
       \<and> map_keys (capturedObjectMap w) = {''C'', ''relCC''}"
  by (simp add: gr_get_def gr_query_def example_rows empty_world_def object_prototype_names_def
      insert_commute)

lemma chain_returns:
  "captureArchivalRule 0 example_host (JSString ''D'') empty_world = None"
  "\<exists>w. captureArchivalRule (Suc n) example_host (JSString ''D'') empty_world = Some (Return (), w)
       \<and> map_keys (capturedObjectMap w) = {''D'', ''relDE'', ''E''}"
  by (simp_all add: gr_get_def gr_query_def example_rows empty_world_def Let_def
      object_prototype_names_def insert_commute)

text \<open>
  A reference to a record that is gone: the variable \<open>vD\<close> of the concrete store names
  the UI page \<open>pgX\<close>, which the store does not have.  \<^verbatim>\<open>getRefRecord()\<close> yields an empty
  record of \<open>sys_ui_page\<close>, and it is recorded under the empty key.
\<close>

lemma dangling_reference_recorded:
  "capturedObjectMap (snd (captureServiceCatalogVariable example_host (JSString ''vD'') empty_world))
     = [(''vD'', ''item_option_new''), ([], ''sys_ui_page'')]"
  by (simp add: captureServiceCatalogVariable_def example_rows refRecordValue_def Let_def
      recordObject_def empty_world_def object_prototype_names_def)

section \<open>The claims\<close>

subsection \<open>C1: recording an identifier twice\<close>

text \<open>
  Claim C1.  The records \<open>_recordObject\<close> is called with are GlideRecords of a named
  table, and their identifiers are issued by the platform, not names that every script
  object inherits.  For such a record, recording the same identifier twice is idempotent:
  a second call of \<open>_recordObject\<close>, with any record that bears the same \<open>sys_id\<close>,
  returns and leaves the whole state as it was, the captured-object map and the counter
  included; and after two such calls on a fresh builder the map has one entry, for that
  identifier, and \<open>getObjectCount\<close> returns 1.
\<close>

theorem recordObject_idempotent:
  assumes "getTableName g \<noteq> []" and "\<not> inherited h (sys_id g)" and "sys_id g' = sys_id g"
  shows "recordObject h (Some g') (snd (recordObject h (Some g) w))
           = (Return (), snd (recordObject h (Some g) w))
       \<and> capturedObjectMap (snd (recordObject h (Some g') (snd (recordObject h (Some g) (initialize w)))))
           = [(sys_id g, getTableName g)]
       \<and> getObjectCount (snd (recordObject h (Some g') (snd (recordObject h (Some g) (initialize w))))) = 1"
proof -
  have known: "truthy (obj_get h (capturedObjectMap (snd (recordObject h (Some g) v))) (sys_id g'))" for v
    using assms by (simp add: recordObject_def Let_def obj_get_obj_set_same)
  have first: "snd (recordObject h (Some g) (initialize w))
      = (initialize w)\<lparr>capturedObjectMap := [(sys_id g, getTableName g)], capturedObjectCount := 1,
           gsLog := gsLog w @ [Log ''Captured object with sys_id'' [getTableName g, sys_id g]]\<rparr>"
    using assms by (simp add: recordObject_def Let_def initialize_def)
  show ?thesis
    using known [of w] known [of "initialize w"] first
    by (simp add: recordObject_known getObjectCount_def)
qed

text \<open>The scenario of the specification: \<open>x1\<close> of container \<open>t1\<close>, recorded twice.\<close>

theorem recordObject_idempotent_witness:
  "recordObject example_host (Some (GR ''t1'' [(''sys_id'', ''x1'')]))
         (snd (recordObject example_host (Some (GR ''t1'' [(''sys_id'', ''x1'')])) empty_world))
     = (Return (), snd (recordObject example_host (Some (GR ''t1'' [(''sys_id'', ''x1'')])) empty_world))
   \<and> capturedObjectMap (snd (recordObject example_host (Some (GR ''t1'' [(''sys_id'', ''x1'')]))
         (snd (recordObject example_host (Some (GR ''t1'' [(''sys_id'', ''x1'')])) (initialize empty_world)))))
     = [(''x1'', ''t1'')]
   \<and> getObjectCount (snd (recordObject example_host (Some (GR ''t1'' [(''sys_id'', ''x1'')]))
         (snd (recordObject example_host (Some (GR ''t1'' [(''sys_id'', ''x1'')])) (initialize empty_world))))) = 1"
  using recordObject_idempotent
    [of "GR ''t1'' [(''sys_id'', ''x1'')]" example_host "GR ''t1'' [(''sys_id'', ''x1'')]" empty_world]
  by (simp add: object_prototype_names_def)

subsection \<open>C2: what every exit of \<open>writeUpdateSet\<close> leaves behind\<close>

text \<open>
  Claim C2, restricted to the exits it holds for.  When the checks at the head of
  \<open>writeUpdateSet\<close> pass, the call returns normally whatever happens in the write
  loop (the platform may make any \<^verbatim>\<open>saveRecord\<close> raise), the captured-object map is
  empty and the counter 0 afterwards, \<^verbatim>\<open>GlideUpdateSet.set\<close> has been called twice, last
  with the update set that was current on entry, and that update set is current again
  if the platform honours the call.  When a check fails, the call throws, and neither the
  captured-object map, the counter nor the current update set is touched and
  \<^verbatim>\<open>GlideUpdateSet.set\<close> is not called.
\<close>

theorem writeUpdateSet_clears_and_restores:
  "(checks_pass h name w \<longrightarrow>
      fst (writeUpdateSet h name w) = Return JSUndefined
    \<and> capturedObjectMap (snd (writeUpdateSet h name w)) = []
    \<and> capturedObjectCount (snd (writeUpdateSet h name w)) = 0
    \<and> (\<exists>target. gusSetCalls (snd (writeUpdateSet h name w))
                    = gusSetCalls w @ [target, currentUpdateSet w])
    \<and> (setEffective h (currentUpdateSet w) \<longrightarrow>
          currentUpdateSet (snd (writeUpdateSet h name w)) = currentUpdateSet w))
   \<and> (\<not> checks_pass h name w \<longrightarrow>
      (\<exists>e. fst (writeUpdateSet h name w) = Throw e)
    \<and> capturedObjectMap (snd (writeUpdateSet h name w)) = capturedObjectMap w
    \<and> capturedObjectCount (snd (writeUpdateSet h name w)) = capturedObjectCount w
    \<and> gusSetCalls (snd (writeUpdateSet h name w)) = gusSetCalls w
    \<and> currentUpdateSet (snd (writeUpdateSet h name w)) = currentUpdateSet w)"
  using writeUpdateSet_entered [of h name w] writeUpdateSet_rejected [of h name w]
  by blast

text \<open>
  A commit whose write loop raises (saving \<open>br1\<close> fails) still clears and restores; a
  commit with a nil name leaves the two captured entries in place.
\<close>

theorem writeUpdateSet_clears_and_restores_witness:
  "fst (writeUpdateSet failing_host (JSString ''US'') captured_two) = Return JSUndefined
   \<and> capturedObjectMap (snd (writeUpdateSet failing_host (JSString ''US'') captured_two)) = []
   \<and> capturedObjectCount (snd (writeUpdateSet failing_host (JSString ''US'') captured_two)) = 0
   \<and> currentUpdateSet (snd (writeUpdateSet failing_host (JSString ''US'') captured_two)) = ''us_default''
   \<and> capturedObjectMap (snd (writeUpdateSet example_host JSNull captured_two))
        = [(''br1'', ''sys_script''), (''br2'', ''sys_script'')]
   \<and> gusSetCalls (snd (writeUpdateSet example_host JSNull captured_two)) = []"
  using writeUpdateSet_clears_and_restores [of failing_host "JSString ''US''" captured_two]
    writeUpdateSet_clears_and_restores [of example_host JSNull captured_two]
    example_checks
  by (simp add: captured_two_def empty_world_def failing_host_def example_host_def)

text \<open>
  The claim speaks of every exit path.  It fails on the exit taken when the record of the
  session's current update set cannot be read: the call throws, the two captured entries
  are still in the map, and \<^verbatim>\<open>GlideUpdateSet.set\<close> was never called.
\<close>

theorem writeUpdateSet_rejected_counterexample:
  "fst (writeUpdateSet example_host (JSString ''US'') (captured_two\<lparr>currentUpdateSet := ''us_gone''\<rparr>))
     = Throw (Failure ''xSNUpdateSetBuilder.writeUpdateSet''
                ''Unable to retrieve GR for current update set!'')
   \<and> capturedObjectMap (snd (writeUpdateSet example_host (JSString ''US'')
         (captured_two\<lparr>currentUpdateSet := ''us_gone''\<rparr>)))
     = [(''br1'', ''sys_script''), (''br2'', ''sys_script'')]
   \<and> capturedObjectCount (snd (writeUpdateSet example_host (JSString ''US'')
         (captured_two\<lparr>currentUpdateSet := ''us_gone''\<rparr>))) = 2
   \<and> gusSetCalls (snd (writeUpdateSet example_host (JSString ''US'')
         (captured_two\<lparr>currentUpdateSet := ''us_gone''\<rparr>))) = []"
  by (simp add: writeUpdateSet_def getCurrentScopeGR_def Let_def example_rows captured_two_def
      empty_world_def)

subsection \<open>C3: failures inside the write loop\<close>

text \<open>
  Claim C3, as the code has it.  An entry that no longer resolves is skipped, without a
  log line, and does not keep the loop from the entries after it: when no \<^verbatim>\<open>saveRecord\<close>
  raises, every entry of the captured-object map is looked up, in order, every entry that
  resolves is written, and the \<^verbatim>\<open>try\<close> block ends with the line that says it finished.
  An exception raised while an entry is written ends the loop: the entries before it have
  been looked up and written as far as they resolve, the failing entry has been looked
  up, and no entry after it is looked up or written.  The exception leaves the loop and
  is caught by the \<^verbatim>\<open>catch\<close> around the whole loop, which logs it, once, in place of the
  line that says the loop finished; the \<^verbatim>\<open>try\<close> block with its \<^verbatim>\<open>catch\<close> returns
  normally.  The theorem gives the outcome and the whole state after the loop alone and
  after the \<^verbatim>\<open>try\<close> block with its \<^verbatim>\<open>catch\<close>, in both cases.
\<close>

theorem writeCapturedObjects_partial_failure:
  "(let entered = w\<lparr>gsLog := gsLog w @
                       [Log ''writeUpdateSet: Moving to Update Set'' [gr_field usGR ''name''],
                        Log ''writeUpdateSet: Writing captured objects to update set'' []],
                     gusSetCalls := gusSetCalls w @ [sys_id usGR],
                     currentUpdateSet :=
                       (if setEffective h (sys_id usGR) then sys_id usGR else currentUpdateSet w)\<rparr>
    in
    ((\<forall>e \<in> set (capturedObjectMap w). save_error h e = None) \<longrightarrow>
        writeLoop h w =
          (Return (),
           w\<lparr>lookups := lookups w @ map entry_lookup (capturedObjectMap w),
             savedRecords := savedRecords w @ List.map_filter (resolve h) (capturedObjectMap w)\<rparr>)
      \<and> writeCapturedObjects h usGR w =
          (Return (),
           entered\<lparr>lookups := lookups w @ map entry_lookup (capturedObjectMap w),
                   savedRecords := savedRecords w @ List.map_filter (resolve h) (capturedObjectMap w),
                   gsLog := gsLog entered @
                     [Log ''writeUpdateSet: Finished writing captured objects to update set'' []]\<rparr>))
    \<and> (capturedObjectMap w = pre @ e0 # post \<and> (\<forall>e \<in> set pre. save_error h e = None)
          \<and> save_error h e0 = Some x \<longrightarrow>
        writeLoop h w =
          (Throw x,
           w\<lparr>lookups := lookups w @ map entry_lookup (pre @ [e0]),
             savedRecords := savedRecords w @ List.map_filter (resolve h) pre\<rparr>)
      \<and> writeCapturedObjects h usGR w =
          (Return (),
           entered\<lparr>lookups := lookups w @ map entry_lookup (pre @ [e0]),
                   savedRecords := savedRecords w @ List.map_filter (resolve h) pre,
                   gsLog := gsLog entered @
                     [LogCaught ''writeUpdateSet: ERROR while writing update set!:'' x]\<rparr>)))"
proof -
  have all: "writeLoop h v =
          (Return (),
           v\<lparr>lookups := lookups v @ map entry_lookup (capturedObjectMap w),
             savedRecords := savedRecords v @ List.map_filter (resolve h) (capturedObjectMap w)\<rparr>)"
    if "\<forall>e \<in> set (capturedObjectMap w). save_error h e = None"
      and "capturedObjectMap v = capturedObjectMap w" for v
    using write_loop_all [OF that(1), of v] that(2) by (simp add: writeLoop_def)
  have stops: "writeLoop h v =
          (Throw x,
           v\<lparr>lookups := lookups v @ map entry_lookup (pre @ [e0]),
             savedRecords := savedRecords v @ List.map_filter (resolve h) pre\<rparr>)"
    if "capturedObjectMap w = pre @ e0 # post" and "\<forall>e \<in> set pre. save_error h e = None"
      and "save_error h e0 = Some x" and "capturedObjectMap v = capturedObjectMap w" for v
    using write_loop_stops [OF that(2) that(3), of post v] that(1) that(4) by (simp add: writeLoop_def)
  have A: "writeCapturedObjects h usGR w =
          (Return (),
           w\<lparr>gsLog := gsLog w @
                 [Log ''writeUpdateSet: Moving to Update Set'' [gr_field usGR ''name''],
                  Log ''writeUpdateSet: Writing captured objects to update set'' [],
                  Log ''writeUpdateSet: Finished writing captured objects to update set'' []],
             gusSetCalls := gusSetCalls w @ [sys_id usGR],
             currentUpdateSet :=
               (if setEffective h (sys_id usGR) then sys_id usGR else currentUpdateSet w),
             lookups := lookups w @ map entry_lookup (capturedObjectMap w),
             savedRecords := savedRecords w @ List.map_filter (resolve h) (capturedObjectMap w)\<rparr>)"
    if "\<forall>e \<in> set (capturedObjectMap w). save_error h e = None"
    by (simp add: writeCapturedObjects_def try_catch_def gs_log_def all [OF that])
  have B: "writeCapturedObjects h usGR w =
          (Return (),
           w\<lparr>gsLog := gsLog w @
                 [Log ''writeUpdateSet: Moving to Update Set'' [gr_field usGR ''name''],
                  Log ''writeUpdateSet: Writing captured objects to update set'' [],
                  LogCaught ''writeUpdateSet: ERROR while writing update set!:'' x],
             gusSetCalls := gusSetCalls w @ [sys_id usGR],
             currentUpdateSet :=
               (if setEffective h (sys_id usGR) then sys_id usGR else currentUpdateSet w),
             lookups := lookups w @ map entry_lookup (pre @ [e0]),
             savedRecords := savedRecords w @ List.map_filter (resolve h) pre\<rparr>)"
    if "capturedObjectMap w = pre @ e0 # post" and "\<forall>e \<in> set pre. save_error h e = None"
      and "save_error h e0 = Some x"
    by (simp add: writeCapturedObjects_def try_catch_def gs_log_def stops [OF that])
  have first: "?thesis" if "\<not> (capturedObjectMap w = pre @ e0 # post \<and> (\<forall>e \<in> set pre. save_error h e = None)
          \<and> save_error h e0 = Some x)"
  proof (cases "\<forall>e \<in> set (capturedObjectMap w). save_error h e = None")
    case True
    with that show ?thesis
      unfolding Let_def by (simp only: A [OF True] all [OF True refl]) simp
  next
    case False
    with that show ?thesis unfolding Let_def by blast
  qed
  have second: "?thesis" if P: "capturedObjectMap w = pre @ e0 # post" "\<forall>e \<in> set pre. save_error h e = None"
          "save_error h e0 = Some x"
  proof -
    from P have "\<not> (\<forall>e \<in> set (capturedObjectMap w). save_error h e = None)" by auto
    then show ?thesis
      unfolding Let_def by (simp only: B [OF P] stops [OF P refl]) simp
  qed
  from first second show ?thesis by blast
qed

text \<open>
  The scenario of the specification: of three entries the second does not resolve, the
  other two are written, and nothing is logged for the second.  And a commit whose first
  entry cannot be saved: the loop throws, and the \<^verbatim>\<open>catch\<close> logs the exception.
\<close>

theorem writeCapturedObjects_partial_failure_witness:
  "writeCapturedObjects example_host (GR ''sys_update_set'' [(''sys_id'', ''us_new''), (''name'', ''US'')])
       captured_three =
     (Return (),
      captured_three\<lparr>gsLog := [Log ''writeUpdateSet: Moving to Update Set'' [''US''],
                                Log ''writeUpdateSet: Writing captured objects to update set'' [],
                                Log ''writeUpdateSet: Finished writing captured objects to update set'' []],
                     gusSetCalls := [''us_new''],
                     currentUpdateSet := ''us_new'',
                     lookups := [Get ''sys_script'' ''sys_id'' ''br1'', Get ''sys_script'' ''sys_id'' ''gone'',
                                 Get ''sys_script'' ''sys_id'' ''br3''],
                     savedRecords := [GR ''sys_script'' [(''sys_id'', ''br1'')],
                                      GR ''sys_script'' [(''sys_id'', ''br3'')]]\<rparr>)
   \<and> writeLoop failing_host captured_two =
     (Throw (PlatformError ''saveRecord failed''),
      captured_two\<lparr>lookups := [Get ''sys_script'' ''sys_id'' ''br1''], savedRecords := []\<rparr>)
   \<and> writeCapturedObjects failing_host (GR ''sys_update_set'' [(''sys_id'', ''us_new''), (''name'', ''US'')])
       captured_two =
     (Return (),
      captured_two\<lparr>gsLog := [Log ''writeUpdateSet: Moving to Update Set'' [''US''],
                              Log ''writeUpdateSet: Writing captured objects to update set'' [],
                              LogCaught ''writeUpdateSet: ERROR while writing update set!:''
                                (PlatformError ''saveRecord failed'')],
                   gusSetCalls := [''us_new''],
                   currentUpdateSet := ''us_new'',
                   lookups := [Get ''sys_script'' ''sys_id'' ''br1''],
                   savedRecords := []\<rparr>)"
  using writeCapturedObjects_partial_failure
      [where w = captured_three and h = example_host
         and usGR = "GR ''sys_update_set'' [(''sys_id'', ''us_new''), (''name'', ''US'')]"
         and pre = "[]" and ?e0.0 = "(''x'', ''y'')" and post = "[]" and x = "PlatformError ''z''"]
    writeCapturedObjects_partial_failure
      [where w = captured_two and h = failing_host
         and usGR = "GR ''sys_update_set'' [(''sys_id'', ''us_new''), (''name'', ''US'')]"
         and pre = "[]" and ?e0.0 = "(''br1'', ''sys_script'')"
         and post = "[(''br2'', ''sys_script'')]" and x = "PlatformError ''saveRecord failed''"]
  by (simp add: captured_three_def captured_two_def empty_world_def save_error_def example_resolve
      example_saveRecordError entry_lookup_def Let_def)

text \<open>
  The claim says that a failing entry never keeps the others from being attempted.  It
  fails when saving the first of two entries raises: the commit returns, the log has the
  one line of the \<^verbatim>\<open>catch\<close>, nothing has been written, and the second entry was never
  looked up, although it resolves and saving it would not raise.
\<close>

theorem writeUpdateSet_aborts_on_error_counterexample:
  "fst (writeUpdateSet failing_host (JSString ''US'') captured_two) = Return JSUndefined
   \<and> savedRecords (snd (writeUpdateSet failing_host (JSString ''US'') captured_two)) = []
   \<and> Get ''sys_script'' ''sys_id'' ''br2''
        \<notin> set (lookups (snd (writeUpdateSet failing_host (JSString ''US'') captured_two)))
   \<and> gsLog (snd (writeUpdateSet failing_host (JSString ''US'') captured_two))
       = [Log ''writeUpdateSet: Called to write captured objects to'' [''US'', ''global''],
          Log ''writeUpdateSet: User's current update set is'' [''Default''],
          Log ''writeUpdateSet: CREATED new update set named'' [''US''],
          Log ''writeUpdateSet: Moving to Update Set'' [''US''],
          Log ''writeUpdateSet: Writing captured objects to update set'' [],
          LogCaught ''writeUpdateSet: ERROR while writing update set!:''
            (PlatformError ''saveRecord failed''),
          Log ''writeUpdateSet: Moved back to original update set successfully'' [''Default'']]
   \<and> resolve failing_host (''br2'', ''sys_script'') = Some (GR ''sys_script'' [(''sys_id'', ''br2'')])
   \<and> save_error failing_host (''br2'', ''sys_script'') = None"
  by (simp add: writeUpdateSet_def getCurrentScopeGR_def Let_def example_rows captured_two_def
      empty_world_def try_finally_def writeCapturedObjects_apply restoreUpdateSet_apply
      writeLoop_def bind_writeEntry example_resolve example_saveRecordError save_error_def
      entry_lookup_def)

subsection \<open>C4: archive rules that refer to each other\<close>

text \<open>
  Claim C4 says that \<open>captureArchivalRule\<close> terminates on the cycle in which rule
  \<open>A\<close> has a related record naming rule \<open>B\<close> and \<open>B\<close> one naming \<open>A\<close>.  The code
  compares a child only with the rule in hand (\<^verbatim>\<open>chld != ruleSysId\<close>), not with the rules
  further up, so on this store the call for \<open>A\<close> calls itself for \<open>B\<close>, which calls
  itself for \<open>A\<close>, without end: no amount of fuel lets the call return, from any state.
\<close>

theorem captureArchivalRule_two_cycle_never_returns:
  "\<forall>n w. captureArchivalRule n example_host (JSString ''A'') w = None"
  by (simp add: cycle_never_returns del: captureArchivalRule.simps)

subsection \<open>C5: unique lookup\<close>

text \<open>
  Claim C5.  \<open>_captureUniqueGRObject\<close> returns normally if and only if its query
  matches exactly one row.  It then returns that row and has recorded it: the row's
  identifier is a key of the captured-object map afterwards (for an identifier that is
  not an inherited name); if the identifier did not read as captured before, the map now
  takes it to the table of the query, all other keys are as before, and the counter has
  grown by one; if it did, the state differs from the one before the call only by the
  lookup.  With no row the function throws the not-found message and with more than one
  the found-multiple message, and in both cases the state differs from the one before the
  call only by the lookup, so nothing was recorded.
\<close>

theorem captureUniqueGRObject_exactly_one:
  "(let rows = db h t cs;
        w1 = w\<lparr>lookups := lookups w @ [Query t cs]\<rparr>;
        res = captureUniqueGRObject h (Some (t, cs)) m w;
        k = row_field (hd rows) ''sys_id''
    in ((\<exists>g. fst res = Return g) \<longleftrightarrow> length rows = 1)
     \<and> (length rows = 1 \<longrightarrow>
          fst res = Return (GR t (hd rows))
        \<and> (\<not> inherited h k \<longrightarrow> k \<in> map_keys (capturedObjectMap (snd res)))
        \<and> (\<not> truthy (obj_get h (capturedObjectMap w) k) \<longrightarrow>
              map_of (capturedObjectMap (snd res)) = (map_of (capturedObjectMap w))(k \<mapsto> t)
            \<and> capturedObjectCount (snd res) = capturedObjectCount w + 1
            \<and> lookups (snd res) = lookups w1)
        \<and> (truthy (obj_get h (capturedObjectMap w) k) \<longrightarrow> snd res = w1))
     \<and> (length rows = 0 \<longrightarrow> res = (Throw (UniqueNoneFound m t cs), w1))
     \<and> (1 < length rows \<longrightarrow> res = (Throw (UniqueMultipleFound m (length rows) t), w1))
     \<and> capturedObjectMap w1 = capturedObjectMap w
     \<and> capturedObjectCount w1 = capturedObjectCount w)"
proof (cases "db h t cs")
  case Nil
  then show ?thesis by (simp add: captureUniqueGRObject_def Let_def)
next
  case (Cons r rs)
  show ?thesis
  proof (cases rs)
    case (Cons r' rs')
    with \<open>db h t cs = r # rs\<close> show ?thesis by (simp add: captureUniqueGRObject_def Let_def)
  next
    case Nil
    define w1 where "w1 = w\<lparr>lookups := lookups w @ [Query t cs]\<rparr>"
    have res: "captureUniqueGRObject h (Some (t, cs)) m w
        = (Return (GR t r), snd (recordObject h (Some (GR t r)) w1))"
      using Nil \<open>db h t cs = r # rs\<close> by (simp add: captureUniqueGRObject_def w1_def)
    have m1: "capturedObjectMap w1 = capturedObjectMap w" by (simp add: w1_def)
    have "snd (recordObject h (Some (GR t r)) w1) = w1"
      if "truthy (obj_get h (capturedObjectMap w) (row_field r ''sys_id''))"
      using that by (simp add: recordObject_known m1)
    moreover have "map_of (capturedObjectMap (snd (recordObject h (Some (GR t r)) w1)))
          = (map_of (capturedObjectMap w))(row_field r ''sys_id'' \<mapsto> t)
        \<and> capturedObjectCount (snd (recordObject h (Some (GR t r)) w1)) = capturedObjectCount w + 1
        \<and> lookups (snd (recordObject h (Some (GR t r)) w1)) = lookups w1"
      if "\<not> truthy (obj_get h (capturedObjectMap w) (row_field r ''sys_id''))"
      using that by (simp add: recordObject_new m1 map_of_obj_set) (simp add: w1_def)
    moreover have "row_field r ''sys_id'' \<in> map_keys (capturedObjectMap (snd (recordObject h (Some (GR t r)) w1)))"
      if "\<not> inherited h (row_field r ''sys_id'')"
      using that by simp
    ultimately show ?thesis
      using Nil \<open>db h t cs = r # rs\<close> res
      by (simp add: Let_def w1_def)
  qed
qed

text \<open>One, no and two matching system properties.\<close>

theorem captureUniqueGRObject_exactly_one_witness:
  "captureUniqueGRObject example_host (Some (''sys_properties'', [AddQuery ''name'' ''x.one'']))
       ''m'' empty_world
     = (Return (GR ''sys_properties'' [(''sys_id'', ''p1''), (''name'', ''x.one'')]),
        empty_world\<lparr>lookups := [Query ''sys_properties'' [AddQuery ''name'' ''x.one'']],
                    capturedObjectMap := [(''p1'', ''sys_properties'')],
                    capturedObjectCount := 1,
                    gsLog := [Log ''Captured object with sys_id'' [''sys_properties'', ''p1'']]\<rparr>)
   \<and> ''p1'' \<in> map_keys (capturedObjectMap (snd (captureUniqueGRObject example_host
         (Some (''sys_properties'', [AddQuery ''name'' ''x.one''])) ''m'' empty_world)))
   \<and> captureUniqueGRObject example_host (Some (''sys_properties'', [AddQuery ''name'' ''x.none'']))
       ''m'' empty_world
     = (Throw (UniqueNoneFound ''m'' ''sys_properties'' [AddQuery ''name'' ''x.none'']),
        empty_world\<lparr>lookups := [Query ''sys_properties'' [AddQuery ''name'' ''x.none'']]\<rparr>)
   \<and> captureUniqueGRObject example_host (Some (''sys_properties'', [AddQuery ''name'' ''x.dup'']))
       ''m'' empty_world
     = (Throw (UniqueMultipleFound ''m'' 2 ''sys_properties''),
        empty_world\<lparr>lookups := [Query ''sys_properties'' [AddQuery ''name'' ''x.dup'']]\<rparr>)"
  using captureUniqueGRObject_exactly_one
      [of example_host "''sys_properties''" "[AddQuery ''name'' ''x.one'']" empty_world "''m''"]
    captureUniqueGRObject_exactly_one
      [of example_host "''sys_properties''" "[AddQuery ''name'' ''x.none'']" empty_world "''m''"]
    captureUniqueGRObject_exactly_one
      [of example_host "''sys_properties''" "[AddQuery ''name'' ''x.dup'']" empty_world "''m''"]
  by (simp add: example_rows Let_def empty_world_def object_prototype_names_def
      captureUniqueGRObject_def recordObject_def)

subsection \<open>C6: records without an identifier\<close>




subsection \<open>C7: what \<open>writeUpdateSet\<close> returns\<close>




subsection \<open>C8: nil parameters\<close>

text \<open>
  Claim C8.  Every public function called with a nil required parameter throws a message
  about that argument and leaves the whole state as it was: no lookup has been made, and
  the captured-object map and the counter are unchanged.
\<close>

theorem nil_parameter_fails_fast:
  assumes "required_nil c"
  shows "\<exists>e. invalid_argument e \<and> invoke n h c w = Some (Throw e, w)"
proof (cases c)
  case (CaptureDataRecord g)
  with assms show ?thesis by (cases g) (auto simp: captureDataRecord_def)
next
  case (CaptureArchivalRule a)
  with assms show ?thesis by auto
next
  case (WriteUpdateSet a)
  with assms show ?thesis by (auto simp: writeUpdateSet_def void_def)
qed (use assms in \<open>auto simp: captureTableWithRelatedObjects_def captureServiceCatalogItem_def
      captureDatabaseView_def captureApplicationMenuAndModules_def captureScriptIncludeByName_def
      captureUserRole_def captureApplicationRecord_def captureSystemPropertyCategoryWithAssociations_def
      captureSystemProperty_def captureEventRegistration_def captureDataRecordsFromTable_def
      captureACLsForTable_def captureACLsForTableAndField_def captureUIPolicesForTable_def
      captureDataPolicesForTable_def captureTableNumber_def captureListLayoutsForTable_def
      captureFormLayoutsForTable_def captureTableFieldAndAssociatedObjects_def
      captureCatalogUIPolicy_def captureServiceCatalogVariable_def\<close>)

theorem nil_parameter_fails_fast_witness:
  "invoke 0 example_host (CaptureTableWithRelatedObjects JSNull) captured_two
     = Some (Throw (NilParameter ''xSNUpdateSetBuilder.captureTableWithRelatedObjects'' ''tblName''),
             captured_two)
   \<and> (\<exists>e. invalid_argument e \<and>
         invoke 0 example_host (CaptureACLsForTableAndField (JSString ''incident'') (JSString []))
           captured_two = Some (Throw e, captured_two))"
  using nil_parameter_fails_fast
      [of "CaptureTableWithRelatedObjects JSNull" 0 example_host captured_two]
    nil_parameter_fails_fast
      [of "CaptureACLsForTableAndField (JSString ''incident'') (JSString [])"
          0 example_host captured_two]
  by (simp add: captureTableWithRelatedObjects_def)

subsection \<open>C9: the type of a catalog variable\<close>



subsection \<open>C10: the counter and the keys of the map\<close>

text \<open>
  Claim C10.  In every state reached from a freshly constructed builder by
  \<open>_recordObject\<close> and \<open>_flushObjectCache\<close> operations, on records as the class passes
  them (GlideRecords of a named table, or no record), \<open>getObjectCount\<close> is the number
  of distinct keys of the captured-object map.  This holds on every platform, whatever
  names script objects inherit: an inherited name is neither stored nor counted.
\<close>

theorem count_is_number_of_keys:
  assumes "\<forall>x \<in> set ops. op_has_table x"
  shows "getObjectCount (run_ops h ops (initialize w))
           = card (map_keys (capturedObjectMap (run_ops h ops (initialize w))))"
proof -
  have "distinct (map fst (capturedObjectMap (run_ops h ops (initialize w))))
      \<and> capturedObjectCount (run_ops h ops (initialize w))
          = length (capturedObjectMap (run_ops h ops (initialize w)))"
    using assms by (rule counted_run_ops) (simp_all add: initialize_def)
  then show ?thesis
    by (simp add: getObjectCount_def map_keys_def distinct_card flip: set_map)
qed

text \<open>
  Five operations: an identifier recorded twice, no record, an inherited name and a
  second identifier.
\<close>

theorem count_is_number_of_keys_witness:
  "getObjectCount
     (run_ops example_host
        [RecordObject (Some (GR ''t1'' [(''sys_id'', ''k1'')])),
         RecordObject (Some (GR ''t2'' [(''sys_id'', ''k1'')])),
         RecordObject None,
         RecordObject (Some (GR ''t3'' [(''sys_id'', ''constructor'')])),
         RecordObject (Some (GR ''t1'' [(''sys_id'', ''k2'')]))] (initialize empty_world))
   = card (map_keys (capturedObjectMap
     (run_ops example_host
        [RecordObject (Some (GR ''t1'' [(''sys_id'', ''k1'')])),
         RecordObject (Some (GR ''t2'' [(''sys_id'', ''k1'')])),
         RecordObject None,
         RecordObject (Some (GR ''t3'' [(''sys_id'', ''constructor'')])),
         RecordObject (Some (GR ''t1'' [(''sys_id'', ''k2'')]))] (initialize empty_world))))"
  using count_is_number_of_keys
    [of "[RecordObject (Some (GR ''t1'' [(''sys_id'', ''k1'')])),
          RecordObject (Some (GR ''t2'' [(''sys_id'', ''k1'')])),
          RecordObject None,
          RecordObject (Some (GR ''t3'' [(''sys_id'', ''constructor'')])),
          RecordObject (Some (GR ''t1'' [(''sys_id'', ''k2'')]))]" example_host empty_world]
  by simp

end
